theory Spec2Isabelle
  imports Main
begin

section \<open>Data model of deepl.go\<close>

subsection \<open>Errors\<close>

text \<open>
  Every error of the client is an xerrors value: \<open>xerrors.New(m)\<close> and
  \<open>xerrors.Errorf(m)\<close> without a wrapping verb are \<open>Err m\<close>, and
  \<open>xerrors.Errorf("p: %w", e)\<close> is \<open>Wrap p e\<close>.  The errors that the
  libraries hand back (encoding/json, io/ioutil, net/http, net/url) are \<open>LibErr\<close>.
\<close>

datatype error = LibErr string | Err string | Wrap string error

fun Error :: "error \<Rightarrow> string" where
  "Error (LibErr m) = m"
| "Error (Err m) = m"
| "Error (Wrap p e) = p @ '': '' @ Error e"

subsection \<open>URLs, requests and responses\<close>

text \<open>
  \<open>url.Values\<close> is \<open>map[string][]string\<close>.  \<open>Values_index v key\<close> is Go's \<open>v[key]\<close>, nil
  for a key that is not there, and \<open>Add\<close> is \<open>v[key] = append(v[key], value)\<close>.
\<close>

type_synonym Values = "string \<rightharpoonup> string list"

definition Values_index :: "Values \<Rightarrow> string \<Rightarrow> string list" where
  "Values_index v key = (case v key of None \<Rightarrow> [] | Some vs \<Rightarrow> vs)"

definition Add :: "Values \<Rightarrow> string \<Rightarrow> string \<Rightarrow> Values" where
  "Add v key val = v(key \<mapsto> Values_index v key @ [val])"

text \<open>
  The fields of \<open>url.URL\<close> that the client touches.  \<open>RawQuery\<close> is held in parsed
  form: the field stores the \<open>url.Values\<close> that \<open>Query()\<close> reads out of the raw
  string, and \<open>Encode()\<close> writes such a value back.  URL objects are taken to be
  as \<open>url.Parse\<close> builds them: a lower-case scheme, and no opaque part beside a
  host.
\<close>

record URL =
  Scheme :: string
  Host :: string
  Path :: string
  RawQuery :: Values

definition Query :: "URL \<Rightarrow> Values" where
  "Query u = RawQuery u"

definition Encode :: "Values \<Rightarrow> Values" where
  "Encode q = q"

datatype "context" = Background | Cancellable nat

type_synonym Header = "string \<rightharpoonup> string list"

definition Header_Set :: "Header \<Rightarrow> string \<Rightarrow> string \<Rightarrow> Header" where
  "Header_Set h key val = h(key \<mapsto> [val])"

record Request =
  Method :: string
  URL :: URL
  Header :: Header
  Ctx :: "context"

text \<open>
  A response as the client sees it: the status code and what
  \<open>ioutil.ReadAll(resp.Body)\<close> gives, an error or the bytes of the body.
\<close>

record Response =
  StatusCode :: int
  Body :: "error + string"

subsection \<open>The decoded structs\<close>

record translation =
  DetectedSourceLanguage :: string
  Text :: string

record TranslateResponse =
  Translations :: "translation list"

record ErrorResponse =
  ErrMessage :: string

record AccountStatus =
  CharacterCount :: int
  CharacterLimit :: int

text \<open>The zero values that \<open>var x T\<close> declares.\<close>

definition zero_TranslateResponse :: TranslateResponse where
  "zero_TranslateResponse = \<lparr>Translations = []\<rparr>"

definition zero_ErrorResponse :: ErrorResponse where
  "zero_ErrorResponse = \<lparr>ErrMessage = []\<rparr>"

definition zero_AccountStatus :: AccountStatus where
  "zero_AccountStatus = \<lparr>CharacterCount = 0, CharacterLimit = 0\<rparr>"

subsection \<open>JSON values and the decoding of a translate response\<close>

text \<open>
  A JSON value as \<open>encoding/json\<close> reads it: object keys and strings unquoted, a
  number as its literal text, the members of an object in the order of the
  document.  Bytes are the characters of a \<open>string\<close>.
\<close>

datatype json =
    JNull
  | JBool bool
  | JNumber string
  | JString string
  | JArray "json list"
  | JObject "(string \<times> json) list"

text \<open>
  The scanner of \<open>encoding/json\<close> reads the bytes one at a time.  Space is a
  blank, a tab, a carriage return or a line feed.
\<close>

definition isSpace :: "char \<Rightarrow> bool" where
  "isSpace c = (c = CHR '' '' \<or> c = CHR 0x09 \<or> c = CHR 0x0D \<or> c = CHR 0x0A)"

definition isDigit :: "char \<Rightarrow> bool" where
  "isDigit c = (c \<in> set ''0123456789'')"

definition isExp :: "char \<Rightarrow> bool" where
  "isExp c = (c = CHR ''e'' \<or> c = CHR ''E'')"

definition hexval :: "char \<Rightarrow> nat option" where
  "hexval c = map_of (zip ''0123456789abcdefABCDEF''
                  [0, 1, 2, 3, 4, 5, 6, 7, 8, 9, 10, 11, 12, 13, 14, 15, 10, 11, 12, 13, 14, 15]) c"

definition getu4 :: "char \<Rightarrow> char \<Rightarrow> char \<Rightarrow> char \<Rightarrow> nat option" where
  "getu4 a b c d =
     (case (hexval a, hexval b, hexval c, hexval d) of
        (Some x, Some y, Some z, Some w) \<Rightarrow> Some (((x * 16 + y) * 16 + z) * 16 + w)
      | _ \<Rightarrow> None)"

text \<open>
  \<open>utf8.EncodeRune\<close>: the bytes of a code point; the replacement character
  U+FFFD (EF BF BD) for a surrogate or a value out of range.
\<close>

definition EncodeRune :: "nat \<Rightarrow> string" where
  "EncodeRune r =
     (if r < 0x80 then [char_of r]
      else if r < 0x800 then [char_of (0xC0 + r div 64), char_of (0x80 + r mod 64)]
      else if (0xD800 \<le> r \<and> r < 0xE000) \<or> 0x10FFFF < r then [CHR 0xEF, CHR 0xBF, CHR 0xBD]
      else if r < 0x10000 then
        [char_of (0xE0 + r div 4096), char_of (0x80 + (r div 64) mod 64), char_of (0x80 + r mod 64)]
      else
        [char_of (0xF0 + r div 262144), char_of (0x80 + (r div 4096) mod 64),
         char_of (0x80 + (r div 64) mod 64), char_of (0x80 + r mod 64)])"

text \<open>
  The length of the valid UTF-8 sequence at the head of the bytes, 0 if there is
  none (\<open>utf8.DecodeRune\<close> then gives the replacement character and width 1).
\<close>

definition in_range :: "nat \<Rightarrow> nat \<Rightarrow> char \<Rightarrow> bool" where
  "in_range lo hi c = (lo \<le> (of_char c :: nat) \<and> (of_char c :: nat) \<le> hi)"

fun utf8_size :: "string \<Rightarrow> nat" where
  "utf8_size [] = 0"
| "utf8_size (c # r) =
     (let b = (of_char c :: nat) in
      if b < 0x80 then 1
      else if 0xC2 \<le> b \<and> b \<le> 0xDF then
        (case r of c1 # _ \<Rightarrow> if in_range 0x80 0xBF c1 then 2 else 0 | _ \<Rightarrow> 0)
      else if 0xE0 \<le> b \<and> b \<le> 0xEF then
        (case r of
           c1 # c2 # _ \<Rightarrow>
             if in_range (if b = 0xE0 then 0xA0 else 0x80) (if b = 0xED then 0x9F else 0xBF) c1
                \<and> in_range 0x80 0xBF c2 then 3 else 0
         | _ \<Rightarrow> 0)
      else if 0xF0 \<le> b \<and> b \<le> 0xF4 then
        (case r of
           c1 # c2 # c3 # _ \<Rightarrow>
             if in_range (if b = 0xF0 then 0x90 else 0x80) (if b = 0xF4 then 0x8F else 0xBF) c1
                \<and> in_range 0x80 0xBF c2 \<and> in_range 0x80 0xBF c3 then 4 else 0
         | _ \<Rightarrow> 0)
      else 0)"

definition escape_char :: "char \<Rightarrow> char" where
  "escape_char e =
     (if e = CHR ''b'' then CHR 0x08
      else if e = CHR ''f'' then CHR 0x0C
      else if e = CHR ''n'' then CHR 0x0A
      else if e = CHR ''r'' then CHR 0x0D
      else if e = CHR ''t'' then CHR 0x09
      else e)"

text \<open>
  \<open>unquote\<close> turns the text between the quotes of a string into its bytes:
  escapes are replaced, a \<open>\u\<close> pair of surrogates becomes one code point, a lone
  surrogate and every byte that is not part of valid UTF-8 become U+FFFD.  The
  first argument counts the bytes still to copy of a sequence already checked.
\<close>

fun unquote :: "nat \<Rightarrow> string \<Rightarrow> string" where
  "unquote k [] = []"
| "unquote (Suc k) (c # r) = c # unquote k r"
| "unquote 0 (c # r) =
     (if c = CHR 0x5C then
        (case r of
           [] \<Rightarrow> []
         | e # r1 \<Rightarrow>
             if e = CHR ''u'' then
               (case r1 of
                  h1 # h2 # h3 # h4 # r2 \<Rightarrow>
                    (case getu4 h1 h2 h3 h4 of
                       None \<Rightarrow> []
                     | Some rr \<Rightarrow>
                         if 0xD800 \<le> rr \<and> rr < 0xDC00 then
                           (case r2 of
                              b # u # k1 # k2 # k3 # k4 # r3 \<Rightarrow>
                                (case (if b = CHR 0x5C \<and> u = CHR ''u'' then getu4 k1 k2 k3 k4 else None) of
                                   Some rr1 \<Rightarrow>
                                     if 0xDC00 \<le> rr1 \<and> rr1 < 0xE000
                                     then EncodeRune (0x10000 + (rr - 0xD800) * 0x400 + (rr1 - 0xDC00))
                                            @ unquote 0 r3
                                     else EncodeRune 0xFFFD @ unquote 0 r2
                                 | None \<Rightarrow> EncodeRune 0xFFFD @ unquote 0 r2)
                            | _ \<Rightarrow> EncodeRune 0xFFFD @ unquote 0 r2)
                         else EncodeRune rr @ unquote 0 r2)
                | _ \<Rightarrow> [])
             else escape_char e # unquote 0 r1)
      else if utf8_size (c # r) = 0 then CHR 0xEF # CHR 0xBF # CHR 0xBD # unquote 0 r
      else c # unquote (utf8_size (c # r) - 1) r)"

text \<open>
  The scanner in two layers.  The lower one cuts the bytes into tokens, with the
  states of the library for numbers (\<open>stateNeg\<close>, \<open>state0\<close>, \<open>state1\<close>, \<open>stateDot\<close>,
  \<open>stateDot0\<close>, \<open>stateE\<close>, \<open>stateESign\<close>, \<open>stateE0\<close>), strings and the three literals.
\<close>

datatype token =
    TLBrace | TRBrace | TLBrack | TRBrack | TColon | TComma
  | TString string | TNumber string | TTrue | TFalse | TNull

datatype numstate =
  stateNeg | state0 | state1 | stateDot | stateDot0 | stateE | stateESign | stateE0

datatype lexstate =
    LValue
  | LString string
  | LEsc string
  | LU nat string
  | LNum numstate string
  | LLit string token

definition start_token :: "char \<Rightarrow> (lexstate \<times> token list) option" where
  "start_token c =
     (if isSpace c then Some (LValue, [])
      else if c = CHR ''{'' then Some (LValue, [TLBrace])
      else if c = CHR ''}'' then Some (LValue, [TRBrace])
      else if c = CHR ''['' then Some (LValue, [TLBrack])
      else if c = CHR '']'' then Some (LValue, [TRBrack])
      else if c = CHR '':'' then Some (LValue, [TColon])
      else if c = CHR '','' then Some (LValue, [TComma])
      else if c = CHR 0x22 then Some (LString [], [])
      else if c = CHR ''-'' then Some (LNum stateNeg [c], [])
      else if c = CHR ''0'' then Some (LNum state0 [c], [])
      else if isDigit c then Some (LNum state1 [c], [])
      else if c = CHR ''t'' then Some (LLit ''rue'' TTrue, [])
      else if c = CHR ''f'' then Some (LLit ''alse'' TFalse, [])
      else if c = CHR ''n'' then Some (LLit ''ull'' TNull, [])
      else None)"

text \<open>
  A number goes on with the character (\<open>Some (Some st)\<close>), is complete before it
  (\<open>Some None\<close>), or is broken by it (\<open>None\<close>).
\<close>

fun num_step :: "numstate \<Rightarrow> char \<Rightarrow> numstate option option" where
  "num_step stateNeg c =
     (if c = CHR ''0'' then Some (Some state0) else if isDigit c then Some (Some state1) else None)"
| "num_step state0 c =
     (if c = CHR ''.'' then Some (Some stateDot) else if isExp c then Some (Some stateE) else Some None)"
| "num_step state1 c =
     (if isDigit c then Some (Some state1) else if c = CHR ''.'' then Some (Some stateDot)
      else if isExp c then Some (Some stateE) else Some None)"
| "num_step stateDot c = (if isDigit c then Some (Some stateDot0) else None)"
| "num_step stateDot0 c =
     (if isDigit c then Some (Some stateDot0) else if isExp c then Some (Some stateE) else Some None)"
| "num_step stateE c =
     (if c = CHR ''+'' \<or> c = CHR ''-'' then Some (Some stateESign)
      else if isDigit c then Some (Some stateE0) else None)"
| "num_step stateESign c = (if isDigit c then Some (Some stateE0) else None)"
| "num_step stateE0 c = (if isDigit c then Some (Some stateE0) else Some None)"

fun lex_step :: "lexstate \<Rightarrow> char \<Rightarrow> (lexstate \<times> token list) option" where
  "lex_step LValue c = start_token c"
| "lex_step (LString raw) c =
     (if c = CHR 0x22 then Some (LValue, [TString (unquote 0 (rev raw))])
      else if c = CHR 0x5C then Some (LEsc (c # raw), [])
      else if (of_char c :: nat) < 0x20 then None
      else Some (LString (c # raw), []))"
| "lex_step (LEsc raw) c =
     (if c \<in> set (''bfnrt/'' @ [CHR 0x5C, CHR 0x22]) then Some (LString (c # raw), [])
      else if c = CHR ''u'' then Some (LU 0 (c # raw), [])
      else None)"
| "lex_step (LU k raw) c =
     (if hexval c = None then None
      else if k < 3 then Some (LU (Suc k) (c # raw), [])
      else Some (LString (c # raw), []))"
| "lex_step (LNum ns lit) c =
     (case num_step ns c of
        None \<Rightarrow> None
      | Some (Some ns') \<Rightarrow> Some (LNum ns' (c # lit), [])
      | Some None \<Rightarrow>
          (case start_token c of
             None \<Rightarrow> None
           | Some (st, toks) \<Rightarrow> Some (st, TNumber (rev lit) # toks)))"
| "lex_step (LLit [] tok) c = None"
| "lex_step (LLit (x # xs) tok) c =
     (if c \<noteq> x then None
      else if xs = [] then Some (LValue, [tok])
      else Some (LLit xs tok, []))"

text \<open>
  The upper layer follows the grammar with a stack of open arrays and objects
  (at most \<open>maxNestingDepth\<close> deep) and builds the value; the members of an array
  or object are collected in reverse.
\<close>

datatype frame =
    FArr "json list"
  | FObj "(string \<times> json) list"
  | FObjVal "(string \<times> json) list" string

datatype pstate =
    BeginValue | BeginValueOrEmpty | BeginStringOrEmpty | BeginString
  | AfterKey | EndValue | EndTop json

datatype perr = Invalid | TooDeep

definition maxNestingDepth :: nat where
  "maxNestingDepth = 10000"

fun put_value :: "json \<Rightarrow> frame list \<Rightarrow> perr + (pstate \<times> frame list)" where
  "put_value v [] = Inr (EndTop v, [])"
| "put_value v (FArr es # stk) = Inr (EndValue, FArr (v # es) # stk)"
| "put_value v (FObjVal ms k # stk) = Inr (EndValue, FObj ((k, v) # ms) # stk)"
| "put_value v (FObj ms # stk) = Inl Invalid"

fun scalar_value :: "token \<Rightarrow> json option" where
  "scalar_value (TString s) = Some (JString s)"
| "scalar_value (TNumber n) = Some (JNumber n)"
| "scalar_value TTrue = Some (JBool True)"
| "scalar_value TFalse = Some (JBool False)"
| "scalar_value TNull = Some JNull"
| "scalar_value t = None"

definition begin_value :: "frame list \<Rightarrow> token \<Rightarrow> perr + (pstate \<times> frame list)" where
  "begin_value stk t =
     (if t = TLBrack then
        (if length stk < maxNestingDepth then Inr (BeginValueOrEmpty, FArr [] # stk) else Inl TooDeep)
      else if t = TLBrace then
        (if length stk < maxNestingDepth then Inr (BeginStringOrEmpty, FObj [] # stk) else Inl TooDeep)
      else (case scalar_value t of None \<Rightarrow> Inl Invalid | Some v \<Rightarrow> put_value v stk))"

fun object_key :: "frame list \<Rightarrow> token \<Rightarrow> perr + (pstate \<times> frame list)" where
  "object_key (FObj ms # stk) (TString k) = Inr (AfterKey, FObjVal ms k # stk)"
| "object_key stk t = Inl Invalid"

fun parse_step :: "pstate \<Rightarrow> frame list \<Rightarrow> token \<Rightarrow> perr + (pstate \<times> frame list)" where
  "parse_step BeginValue stk t = begin_value stk t"
| "parse_step BeginValueOrEmpty stk t =
     (case (t, stk) of
        (TRBrack, FArr es # stk') \<Rightarrow> put_value (JArray (rev es)) stk'
      | _ \<Rightarrow> begin_value stk t)"
| "parse_step BeginStringOrEmpty stk t =
     (case (t, stk) of
        (TRBrace, FObj ms # stk') \<Rightarrow> put_value (JObject (rev ms)) stk'
      | _ \<Rightarrow> object_key stk t)"
| "parse_step BeginString stk t = object_key stk t"
| "parse_step AfterKey stk t = (if t = TColon then Inr (BeginValue, stk) else Inl Invalid)"
| "parse_step EndValue stk t =
     (case (t, stk) of
        (TComma, FArr es # stk') \<Rightarrow> Inr (BeginValue, stk)
      | (TRBrack, FArr es # stk') \<Rightarrow> put_value (JArray (rev es)) stk'
      | (TComma, FObj ms # stk') \<Rightarrow> Inr (BeginString, stk)
      | (TRBrace, FObj ms # stk') \<Rightarrow> put_value (JObject (rev ms)) stk'
      | _ \<Rightarrow> Inl Invalid)"
| "parse_step (EndTop v) stk t = Inl Invalid"

fun feed_tokens :: "pstate \<Rightarrow> frame list \<Rightarrow> token list \<Rightarrow> perr + (pstate \<times> frame list)" where
  "feed_tokens ps stk [] = Inr (ps, stk)"
| "feed_tokens ps stk (t # ts) =
     (case parse_step ps stk t of Inl e \<Rightarrow> Inl e | Inr (ps', stk') \<Rightarrow> feed_tokens ps' stk' ts)"

text \<open>
  The library refuses a string, a number or a literal at its first character
  where the grammar allows no such value; \<open>opened\<close> gives a token of the kind
  that the character opens, to try on the grammar.
\<close>

definition opened :: "lexstate \<Rightarrow> token option" where
  "opened ls =
     (case ls of
        LString raw \<Rightarrow> Some (TString [])
      | LNum ns lit \<Rightarrow> Some TNull
      | LLit xs tok \<Rightarrow> Some TNull
      | _ \<Rightarrow> None)"

definition SyntaxError :: "perr \<Rightarrow> error" where
  "SyntaxError e =
     (case e of Invalid \<Rightarrow> LibErr ''invalid character'' | TooDeep \<Rightarrow> LibErr ''exceeded max depth'')"

text \<open>
  At the end of the bytes the library steps once more with a blank: a number is
  closed by it, an unfinished literal or escape is refused by it, and anything
  else that is not a complete value is an unexpected end.
\<close>

fun scan_bytes :: "lexstate \<Rightarrow> pstate \<Rightarrow> frame list \<Rightarrow> string \<Rightarrow> error + json" where
  "scan_bytes ls ps stk [] =
     (case lex_step ls (CHR '' '') of
        None \<Rightarrow> Inl (SyntaxError Invalid)
      | Some (ls', toks) \<Rightarrow>
          (case feed_tokens ps stk toks of
             Inl e \<Rightarrow> Inl (SyntaxError e)
           | Inr (EndTop v, stk') \<Rightarrow> Inr v
           | Inr (ps', stk') \<Rightarrow> Inl (LibErr ''unexpected end of JSON input'')))"
| "scan_bytes ls ps stk (c # cs) =
     (case lex_step ls c of
        None \<Rightarrow> Inl (SyntaxError Invalid)
      | Some (ls', toks) \<Rightarrow>
          (case feed_tokens ps stk toks of
             Inl e \<Rightarrow> Inl (SyntaxError e)
           | Inr (ps', stk') \<Rightarrow>
               (case (if ls = LValue \<or> toks \<noteq> [] then opened ls' else None) of
                  None \<Rightarrow> scan_bytes ls' ps' stk' cs
                | Some t \<Rightarrow>
                    (case parse_step ps' stk' t of
                       Inl e \<Rightarrow> Inl (SyntaxError e)
                     | Inr r \<Rightarrow> scan_bytes ls' ps' stk' cs))))"

definition json_parse :: "string \<Rightarrow> error + json" where
  "json_parse bodyBytes = scan_bytes LValue BeginValue [] bodyBytes"

text \<open>
  \<open>json.Unmarshal\<close> matches an object key to the \<open>json\<close> tag of a struct field
  ignoring case.  Its folding maps the ASCII letters to upper case and the two
  other characters that fold to an ASCII letter, the long s (bytes C5 BF) and
  the Kelvin sign (bytes E2 84 AA), to \<open>S\<close> and \<open>K\<close>.
\<close>

definition ToUpper :: "char \<Rightarrow> char" where
  "ToUpper c =
     (case map_of (zip ''abcdefghijklmnopqrstuvwxyz'' ''ABCDEFGHIJKLMNOPQRSTUVWXYZ'') c of
        None \<Rightarrow> c
      | Some u \<Rightarrow> u)"

fun foldName :: "string \<Rightarrow> string" where
  "foldName (c # d # e # r) =
     (if c = CHR 0xE2 \<and> d = CHR 0x84 \<and> e = CHR 0xAA then CHR ''K'' # foldName r
      else if c = CHR 0xC5 \<and> d = CHR 0xBF then CHR ''S'' # foldName (e # r)
      else ToUpper c # foldName (d # e # r))"
| "foldName [c, d] =
     (if c = CHR 0xC5 \<and> d = CHR 0xBF then [CHR ''S''] else [ToUpper c, ToUpper d])"
| "foldName [c] = [ToUpper c]"
| "foldName [] = []"

definition matches :: "string \<Rightarrow> string \<Rightarrow> bool" where
  "matches key name = (foldName key = foldName name)"

text \<open>
  A value of the wrong kind for its target is skipped: the target keeps what it
  had, the decoder goes on, and the call returns the first such error
  (\<open>saveError\<close>).  \<open>null\<close> leaves a string or a struct as it is.
\<close>

fun kind :: "json \<Rightarrow> string" where
  "kind JNull = ''null''"
| "kind (JBool b) = ''bool''"
| "kind (JNumber n) = ''number''"
| "kind (JString s) = ''string''"
| "kind (JArray js) = ''array''"
| "kind (JObject kvs) = ''object''"

definition UnmarshalTypeError :: "string \<Rightarrow> string \<Rightarrow> string \<Rightarrow> error" where
  "UnmarshalTypeError val field typ =
     LibErr (''json: cannot unmarshal '' @ val @ '' into Go '' @ field @ '' of type '' @ typ)"

definition saveError :: "error option \<Rightarrow> error option \<Rightarrow> error option" where
  "saveError saved err = (case saved of None \<Rightarrow> err | Some e \<Rightarrow> Some e)"

fun store_string :: "string \<Rightarrow> json \<Rightarrow> string \<Rightarrow> string \<times> error option" where
  "store_string field (JString s) old = (s, None)"
| "store_string field JNull old = (old, None)"
| "store_string field j old = (old, Some (UnmarshalTypeError (kind j) field ''string''))"

text \<open>
  The members of an object decoded into a \<open>translation\<close>, in the order of the
  document; a key that matches no field is ignored.
\<close>

fun object_translation ::
  "(string \<times> json) list \<Rightarrow> translation \<Rightarrow> error option \<Rightarrow> translation \<times> error option" where
  "object_translation [] t saved = (t, saved)"
| "object_translation ((key, j) # kvs) t saved =
     (if matches key ''detected_source_language'' then
        (case store_string ''struct field translation.translations.detected_source_language'' j
                (DetectedSourceLanguage t) of
           (s, err) \<Rightarrow> object_translation kvs (t\<lparr>DetectedSourceLanguage := s\<rparr>) (saveError saved err))
      else if matches key ''text'' then
        (case store_string ''struct field translation.translations.text'' j (Text t) of
           (s, err) \<Rightarrow> object_translation kvs (t\<lparr>Text := s\<rparr>) (saveError saved err))
      else object_translation kvs t saved)"

fun value_translation :: "json \<Rightarrow> translation \<Rightarrow> translation \<times> error option" where
  "value_translation (JObject kvs) t = object_translation kvs t None"
| "value_translation JNull t = (t, None)"
| "value_translation j t =
     (t, Some (UnmarshalTypeError (kind j) ''struct field TranslateResponse.translations'' ''deepl.translation''))"

text \<open>An array decoded into an empty slice: one new element per item, in order.\<close>

fun array_translation :: "json list \<Rightarrow> translation list \<times> error option" where
  "array_translation [] = ([], None)"
| "array_translation (j # js) =
     (case value_translation j \<lparr>DetectedSourceLanguage = [], Text = []\<rparr> of
        (t, err) \<Rightarrow> (case array_translation js of (ts, errs) \<Rightarrow> (t # ts, saveError err errs)))"

fun object_TranslateResponse ::
  "(string \<times> json) list \<Rightarrow> TranslateResponse \<Rightarrow> error option \<Rightarrow> TranslateResponse \<times> error option" where
  "object_TranslateResponse [] v saved = (v, saved)"
| "object_TranslateResponse ((key, j) # kvs) v saved =
     (if matches key ''translations'' then
        (case j of
           JArray js \<Rightarrow>
             (case array_translation js of
                (ts, err) \<Rightarrow> object_TranslateResponse kvs (v\<lparr>Translations := ts\<rparr>) (saveError saved err))
         | JNull \<Rightarrow> object_TranslateResponse kvs (v\<lparr>Translations := []\<rparr>) saved
         | _ \<Rightarrow>
             object_TranslateResponse kvs v
               (saveError saved
                  (Some (UnmarshalTypeError (kind j) ''struct field TranslateResponse.translations''
                           ''[]deepl.translation''))))
      else object_TranslateResponse kvs v saved)"

fun value_TranslateResponse :: "json \<Rightarrow> TranslateResponse \<Rightarrow> TranslateResponse \<times> error option" where
  "value_TranslateResponse (JObject kvs) v = object_TranslateResponse kvs v None"
| "value_TranslateResponse JNull v = (v, None)"
| "value_TranslateResponse j v =
     (v, Some (UnmarshalTypeError (kind j) ''value'' ''deepl.TranslateResponse''))"

text \<open>
  The functions above decode an array into an empty slice.  Into a slice that
  already has elements (a non-empty target, or a second \<open>translations\<close> key in the
  document) the library decodes element by element over the old ones; that case
  is left to the library.
\<close>

definition reuses_slice :: "json \<Rightarrow> TranslateResponse \<Rightarrow> bool" where
  "reuses_slice j v =
     (Translations v \<noteq> []
      \<or> (case j of
            JObject kvs \<Rightarrow> 1 < length (filter (\<lambda>(key, j'). matches key ''translations'') kvs)
          | _ \<Rightarrow> False))"

subsection \<open>The client and the program state\<close>

datatype writer = Stderr | Writer nat

record Logger =
  Logger_out :: writer
  Logger_prefix :: string
  Logger_flag :: int

definition LstdFlags :: int where
  "LstdFlags = 3"

datatype http_client = DefaultClient | OtherClient nat

type_synonym addr = nat

text \<open>
  \<open>BaseURL\<close> is a pointer: the address of a \<open>url.URL\<close> object in the store.
  \<open>Logger\<close> may be nil.  The pointers \<open>BaseURL\<close> and \<open>HTTPClient\<close> are taken to
  be non-nil, as \<open>New\<close> and the tests build them.
\<close>

record Client =
  BaseURL :: addr
  HTTPClient :: http_client
  Logger :: "Logger option"

text \<open>
  What a call can read or change: the store of \<open>url.URL\<close> and \<open>Client\<close> objects
  with the next unused address, the process environment, and the history of
  requests created by \<open>http.NewRequest\<close> and handed to \<open>HTTPClient.Do\<close>.
  \<open>Created m u\<close> records that \<open>http.NewRequest\<close> accepted the method \<open>m\<close> and the
  string of the URL \<open>u\<close>; \<open>Sent hc req\<close> records the request, with the URL read
  back from that string, as it is handed to the client \<open>hc\<close>.
\<close>

datatype event = Created string URL | Sent http_client Request

record state =
  urls :: "addr \<Rightarrow> URL"
  clients :: "addr \<Rightarrow> Client"
  brk :: addr
  environ :: "string \<rightharpoonup> string"
  trace :: "event list"

subsection \<open>The libraries\<close>

text \<open>
  The library functions the client calls are parameters of the model:
  \<open>url.Parse\<close>, \<open>path.Join\<close>, \<open>json.Unmarshal\<close> into an \<open>ErrorResponse\<close> and an
  \<open>AccountStatus\<close> (it writes into its target and returns an error or nil), the
  verdict of \<open>http.NewRequest\<close> on a method and URL, and \<open>(*http.Client).Do\<close>.
  \<open>json.Unmarshal\<close> into a \<open>TranslateResponse\<close> is spelled out above; its one
  parameter is the decoding over a slice that already has elements
  (\<open>Unmarshal_reuse\<close>).  Of the URL that \<open>http.NewRequest\<close> reads back from
  \<open>reqURL.String()\<close>, the scheme, host and path for a URL without a host are a
  parameter (\<open>Parse_hostless\<close>).
\<close>

record lib =
  url_Parse :: "string \<Rightarrow> error + URL"
  path_Join :: "string list \<Rightarrow> string"
  Unmarshal_ErrorResponse :: "string \<Rightarrow> ErrorResponse \<Rightarrow> ErrorResponse \<times> error option"
  Unmarshal_reuse :: "string \<Rightarrow> TranslateResponse \<Rightarrow> TranslateResponse \<times> error option"
  Unmarshal_AccountStatus :: "string \<Rightarrow> AccountStatus \<Rightarrow> AccountStatus \<times> error option"
  NewRequest_err :: "string \<Rightarrow> URL \<Rightarrow> error option"
  Parse_hostless :: "URL \<Rightarrow> URL"
  Do :: "http_client \<Rightarrow> Request \<Rightarrow> error + Response"

text \<open>
  \<open>json.Unmarshal(bodyBytes, &transResp)\<close>: a body that is not JSON is rejected
  before the target is touched; otherwise the value is decoded into the target.
\<close>

definition Unmarshal_TranslateResponse ::
  "lib \<Rightarrow> string \<Rightarrow> TranslateResponse \<Rightarrow> TranslateResponse \<times> error option" where
  "Unmarshal_TranslateResponse l bodyBytes v =
     (case json_parse bodyBytes of
        Inl err \<Rightarrow> (v, Some err)
      | Inr j \<Rightarrow>
          if reuses_slice j v then Unmarshal_reuse l bodyBytes v
          else value_TranslateResponse j v)"

text \<open>
  What \<open>http.NewRequest\<close> makes of \<open>reqURL.String()\<close>: it parses the string again
  and drops an empty port from the host.  For a URL with a host, \<open>String()\<close> puts
  a slash before a path that does not start with one, \<open>url.Parse\<close> gives the
  scheme in lower case, and host and query come back as they were.  A string
  that does not parse is refused (\<open>NewRequest_err\<close>).
\<close>

definition ToLower :: "char \<Rightarrow> char" where
  "ToLower c =
     (case map_of (zip ''ABCDEFGHIJKLMNOPQRSTUVWXYZ'' ''abcdefghijklmnopqrstuvwxyz'') c of
        None \<Rightarrow> c
      | Some u \<Rightarrow> u)"

definition removeEmptyPort :: "string \<Rightarrow> string" where
  "removeEmptyPort host = (if host \<noteq> [] \<and> last host = CHR '':'' then butlast host else host)"

definition rooted :: "string \<Rightarrow> string" where
  "rooted p = (if p \<noteq> [] \<and> hd p \<noteq> CHR ''/'' then CHR ''/'' # p else p)"

definition String_Parse :: "lib \<Rightarrow> URL \<Rightarrow> URL" where
  "String_Parse l u =
     (if Host u \<noteq> []
      then u\<lparr>Scheme := map ToLower (Scheme u), Host := removeEmptyPort (Host u), Path := rooted (Path u)\<rparr>
      else (Parse_hostless l u)\<lparr>RawQuery := RawQuery u\<rparr>)"

section \<open>The operations of deepl.go\<close>

definition Getenv :: "state \<Rightarrow> string \<Rightarrow> string" where
  "Getenv s key = (case environ s key of None \<Rightarrow> [] | Some v \<Rightarrow> v)"

definition getAPIKey :: "state \<Rightarrow> string \<times> error option" where
  "getAPIKey s =
     (case environ s ''DEEPL_API_KEY'' of
        None \<Rightarrow> ([], Some (Err ''Not set API key environment''))
      | Some val \<Rightarrow>
          if val = [] then ([], Some (Err ''DEEPL_API_KEY is empty''))
          else (Getenv s ''DEEPL_API_KEY'', None))"

definition decodeBody ::
  "(string \<Rightarrow> 'a \<Rightarrow> 'a \<times> error option) \<Rightarrow> string \<Rightarrow> 'a \<Rightarrow> 'a \<times> error option" where
  "decodeBody unmarshal bodyBytes outStruct =
     (case unmarshal bodyBytes outStruct of
        (out', Some err) \<Rightarrow> (out', Some err)
      | (out', None) \<Rightarrow> (out', None))"

text \<open>
  \<open>responseParse\<close> decodes into the struct behind \<open>outStruct\<close>; the model returns
  the struct as the call leaves it, beside the error.
\<close>

definition responseParse ::
  "lib \<Rightarrow> (string \<Rightarrow> 'a \<Rightarrow> 'a \<times> error option) \<Rightarrow> Response \<Rightarrow> 'a \<Rightarrow> 'a \<times> error option" where
  "responseParse l unmarshal resp outStruct =
     (case Body resp of
        Inl err \<Rightarrow> (outStruct, Some (Wrap ''Failed to read response'' err))
      | Inr bodyBytes \<Rightarrow>
          (case (if StatusCode resp \<noteq> 200 \<and> length bodyBytes \<noteq> 0
                 then (case decodeBody (Unmarshal_ErrorResponse l) bodyBytes zero_ErrorResponse of
                         (errResp, Some err) \<Rightarrow> Inl (Wrap ''Failed to decode error response'' err)
                       | (errResp, None) \<Rightarrow> Inr (ErrMessage errResp))
                 else Inr []) of
             Inl e \<Rightarrow> (outStruct, Some e)
           | Inr errMessage \<Rightarrow>
               if StatusCode resp = 200 then
                 (case decodeBody unmarshal bodyBytes outStruct of
                    (out', Some err) \<Rightarrow> (out', Some (Wrap ''Failed to parse Json'' err))
                  | (out', None) \<Rightarrow> (out', None))
               else if StatusCode resp = 400 then
                 (outStruct, Some (Err (''Bad request. Please check error message and your parameters. Error message is '' @ errMessage)))
               else if StatusCode resp = 403 then
                 (outStruct, Some (Err ''Authorization failed. Please supply a valid auth_key parameter.''))
               else if StatusCode resp = 404 then
                 (outStruct, Some (Err ''The requested resource clould not be found.''))
               else if StatusCode resp = 413 then
                 (outStruct, Some (Err ''The request size exceeds the limit.''))
               else if StatusCode resp = 429 then
                 (outStruct, Some (Err ''Too many requests. Please wait and resend your request.''))
               else if StatusCode resp = 456 then
                 (outStruct, Some (Err ''Quota exceeded. The character limit has been reached.''))
               else if StatusCode resp = 503 then
                 (outStruct, Some (Err ''Resource currently unavailable. Try again later.''))
               else if StatusCode resp \<ge> 500 then
                 (outStruct, Some (Err ''Internal error''))
               else
                 (outStruct, Some (Err ''Unexpected error''))))"


text \<open>
  \<open>http.NewRequest(method, reqURL.String(), nil)\<close>: the library either rejects the
  method and URL or returns a request for the method and the URL it reads back
  from the string, with an empty header and the background context.
\<close>

definition NewRequest :: "lib \<Rightarrow> string \<Rightarrow> URL \<Rightarrow> state \<Rightarrow> (error + Request) \<times> state" where
  "NewRequest l method u s =
     (case NewRequest_err l method u of
        Some err \<Rightarrow> (Inl err, s)
      | None \<Rightarrow>
          (Inr \<lparr>Method = method, URL = String_Parse l u, Header = Map.empty, Ctx = Background\<rparr>,
           s\<lparr>trace := trace s @ [Created method u]\<rparr>))"

definition HTTPClient_Do :: "lib \<Rightarrow> http_client \<Rightarrow> Request \<Rightarrow> state \<Rightarrow> (error + Response) \<times> state" where
  "HTTPClient_Do l hc req s = (Do l hc req, s\<lparr>trace := trace s @ [Sent hc req]\<rparr>)"

text \<open>
  The receiver \<open>c\<close> is a pointer to a \<open>Client\<close> in the store.  A result
  \<open>(*T, error)\<close> is a pair of options: \<open>None\<close> is nil.
\<close>

definition GetAccountStatus ::
  "lib \<Rightarrow> addr \<Rightarrow> context \<Rightarrow> state \<Rightarrow> (AccountStatus option \<times> error option) \<times> state" where
  "GetAccountStatus l c ctx s =
     (let accountStatusResp = zero_AccountStatus;
          reqURL = urls s (BaseURL (clients s c));
          reqURL = reqURL\<lparr>Path := path_Join l [Path reqURL, ''v2'', ''usage'']\<rparr>;
          q = Query reqURL
      in case getAPIKey s of
           (apiKey, Some err) \<Rightarrow> ((None, Some err), s)
         | (apiKey, None) \<Rightarrow>
             (let q = Add q ''auth_key'' apiKey;
                  reqURL = reqURL\<lparr>RawQuery := Encode q\<rparr>
              in case NewRequest l ''POST'' reqURL s of
                   (Inl err, s1) \<Rightarrow> ((None, Some (Wrap ''Failed to create request'' err)), s1)
                 | (Inr req, s1) \<Rightarrow>
                     (let req = req\<lparr>Header := Header_Set (Header req) ''User-Agent'' ''Deepl-Go-Client''\<rparr>;
                          req = req\<lparr>Ctx := ctx\<rparr>
                      in case HTTPClient_Do l (HTTPClient (clients s1 c)) req s1 of
                           (Inl err, s2) \<Rightarrow> ((None, Some (Wrap ''Failed to send http request'' err)), s2)
                         | (Inr resp, s2) \<Rightarrow>
                             (case responseParse l (Unmarshal_AccountStatus l) resp accountStatusResp of
                                (accountStatusResp', Some err) \<Rightarrow> ((None, Some err), s2)
                              | (accountStatusResp', None) \<Rightarrow> ((Some accountStatusResp', None), s2)))))"

definition TranslateSentence ::
  "lib \<Rightarrow> addr \<Rightarrow> context \<Rightarrow> string \<Rightarrow> string \<Rightarrow> string \<Rightarrow> state
     \<Rightarrow> (TranslateResponse option \<times> error option) \<times> state" where
  "TranslateSentence l c ctx txt sourceLang targetLang s =
     (let transResp = zero_TranslateResponse;
          reqURL = urls s (BaseURL (clients s c));
          reqURL = reqURL\<lparr>Path := path_Join l [Path reqURL, ''v2'', ''translate'']\<rparr>;
          q = Query reqURL
      in case getAPIKey s of
           (apiKey, Some err) \<Rightarrow> ((None, Some err), s)
         | (apiKey, None) \<Rightarrow>
             (let q = Add q ''auth_key'' apiKey;
                  q = Add q ''text'' txt;
                  q = Add q ''target_lang'' targetLang;
                  q = Add q ''source_lang'' sourceLang;
                  reqURL = reqURL\<lparr>RawQuery := Encode q\<rparr>
              in case NewRequest l ''POST'' reqURL s of
                   (Inl err, s1) \<Rightarrow> ((None, Some (Wrap ''Failed to create request'' err)), s1)
                 | (Inr req, s1) \<Rightarrow>
                     (let req = req\<lparr>Header := Header_Set (Header req) ''User-Agent'' ''Deepl-Go-Client''\<rparr>;
                          req = req\<lparr>Ctx := ctx\<rparr>
                      in case HTTPClient_Do l (HTTPClient (clients s1 c)) req s1 of
                           (Inl err, s2) \<Rightarrow> ((None, Some (Wrap ''Failed to send http request'' err)), s2)
                         | (Inr resp, s2) \<Rightarrow>
                             (case responseParse l (Unmarshal_TranslateResponse l) resp transResp of
                                (transResp', Some err) \<Rightarrow> ((None, Some err), s2)
                              | (transResp', None) \<Rightarrow> ((Some transResp', None), s2)))))"

text \<open>
  \<open>New\<close> stores the parsed URL and the new \<open>Client\<close> at fresh addresses and
  returns the address of the client.
\<close>

definition New ::
  "lib \<Rightarrow> string \<Rightarrow> Logger option \<Rightarrow> state \<Rightarrow> (addr option \<times> error option) \<times> state" where
  "New l rawBaseURL logger s =
     (case url_Parse l rawBaseURL of
        Inl err \<Rightarrow> ((None, Some (Err ''Failed to parse URL'')), s)
      | Inr u \<Rightarrow>
          (let baseURL = brk s;
               s1 = s\<lparr>urls := (urls s)(baseURL := u), brk := Suc (brk s)\<rparr>;
               logger = (case logger of
                           None \<Rightarrow> Some \<lparr>Logger_out = Stderr, Logger_prefix = ''[Log]'', Logger_flag = LstdFlags\<rparr>
                         | Some lg \<Rightarrow> Some lg);
               p = brk s1;
               s2 = s1\<lparr>clients := (clients s1)(p := \<lparr>BaseURL = baseURL, HTTPClient = DefaultClient, Logger = logger\<rparr>),
                       brk := Suc (brk s1)\<rparr>
           in ((Some p, None), s2)))"

section \<open>The second copy of the client (src/unnamed/part_002)\<close>

text \<open>
  This file declares the same package with its own \<open>decodeBody\<close> and
  \<open>TranslateSentence\<close>: the response is parsed inline, and every return
  statement hands back \<open>&transResp\<close>.
\<close>

definition decodeBody_part_002 ::
  "(string \<Rightarrow> 'a \<Rightarrow> 'a \<times> error option) \<Rightarrow> string \<Rightarrow> 'a \<Rightarrow> 'a \<times> error option" where
  "decodeBody_part_002 unmarshal bodyBytes outStruct =
     (case unmarshal bodyBytes outStruct of
        (out', Some err) \<Rightarrow> (out', Some (Wrap ''Failed to parse Json'' err))
      | (out', None) \<Rightarrow> (out', None))"

definition TranslateSentence_part_002 ::
  "lib \<Rightarrow> addr \<Rightarrow> context \<Rightarrow> string \<Rightarrow> string \<Rightarrow> string \<Rightarrow> state
     \<Rightarrow> (TranslateResponse option \<times> error option) \<times> state" where
  "TranslateSentence_part_002 l c ctx txt sourceLang targetLang s =
     (let transResp = zero_TranslateResponse;
          errResp = zero_ErrorResponse;
          reqURL = urls s (BaseURL (clients s c));
          reqURL = reqURL\<lparr>Path := path_Join l [Path reqURL, ''v2'', ''translate'']\<rparr>;
          q = Query reqURL
      in case environ s ''DEEPL_API_KEY'' of
           None \<Rightarrow> ((Some transResp, Some (Err ''Not set API key environment'')), s)
         | Some val \<Rightarrow>
             if val = [] then ((Some transResp, Some (Err ''DEEPL_API_KEY is empty'')), s)
             else
              (let apiKey = Getenv s ''DEEPL_API_KEY'';
                   q = Add q ''auth_key'' apiKey;
                   q = Add q ''text'' txt;
                   q = Add q ''target_lang'' targetLang;
                   q = Add q ''source_lang'' sourceLang;
                   reqURL = reqURL\<lparr>RawQuery := Encode q\<rparr>
               in case NewRequest l ''POST'' reqURL s of
                    (Inl err, s1) \<Rightarrow> ((Some transResp, Some (Wrap ''Failed to create request'' err)), s1)
                  | (Inr req, s1) \<Rightarrow>
                      (let req = req\<lparr>Header := Header_Set (Header req) ''User-Agent'' ''Deepl-Go-Client''\<rparr>;
                           req = req\<lparr>Ctx := ctx\<rparr>
                       in case HTTPClient_Do l (HTTPClient (clients s1 c)) req s1 of
                            (Inl err, s2) \<Rightarrow> ((Some transResp, Some (Wrap ''Failed to send http request'' err)), s2)
                          | (Inr resp, s2) \<Rightarrow>
                              (case Body resp of
                                 Inl err \<Rightarrow> ((Some transResp, Some (Wrap ''Failed to read response'' err)), s2)
                               | Inr bodyBytes \<Rightarrow>
                                   (case (if StatusCode resp \<noteq> 200 \<and> length bodyBytes \<noteq> 0
                                          then (case decodeBody_part_002 (Unmarshal_ErrorResponse l) bodyBytes errResp of
                                                  (errResp', Some err) \<Rightarrow> Inl (Wrap ''Failed to decode error response'' err)
                                                | (errResp', None) \<Rightarrow> Inr (ErrMessage errResp'))
                                          else Inr []) of
                                      Inl e \<Rightarrow> ((Some transResp, Some e), s2)
                                    | Inr errMessage \<Rightarrow>
                                        if StatusCode resp = 200 then
                                          (case decodeBody_part_002 (Unmarshal_TranslateResponse l) bodyBytes transResp of
                                             (transResp', Some err) \<Rightarrow> ((Some transResp', Some err), s2)
                                           | (transResp', None) \<Rightarrow> ((Some transResp', None), s2))
                                        else if StatusCode resp = 400 then
                                          ((Some transResp, Some (Err (''Bad request. Please check error message and your parameters. Error message is '' @ errMessage))), s2)
                                        else if StatusCode resp = 403 then
                                          ((Some transResp, Some (Err ''Authorization failed. Please supply a valid auth_key parameter.'')), s2)
                                        else if StatusCode resp = 404 then
                                          ((Some transResp, Some (Err ''The requested resource clould not be found.'')), s2)
                                        else if StatusCode resp = 413 then
                                          ((Some transResp, Some (Err ''The request size exceeds the limit.'')), s2)
                                        else if StatusCode resp = 429 then
                                          ((Some transResp, Some (Err ''Too many requests. Please wait and resend your request.'')), s2)
                                        else if StatusCode resp = 456 then
                                          ((Some transResp, Some (Err ''Quota exceeded. The character limit has been reached.'')), s2)
                                        else if StatusCode resp = 503 then
                                          ((Some transResp, Some (Err ''Resource currently unavailable. Try again later.'')), s2)
                                        else if StatusCode resp \<ge> 500 then
                                          ((Some transResp, Some (Err ''Internal error'')), s2)
                                        else
                                          ((Some transResp, Some (Err ''Unexpected error'')), s2))))))"


section \<open>The status table of the specification\<close>

text \<open>
  The table of section 4.4 of the specification for the statuses other than 200,
  read top to bottom, with the message texts of \<open>responseParse\<close>.  The second
  argument is the provider's message, which only the row for 400 uses.
\<close>

definition spec_status_error :: "int \<Rightarrow> string \<Rightarrow> error" where
  "spec_status_error status message =
     (if status = 400 then Err (''Bad request. Please check error message and your parameters. Error message is '' @ message)
      else if status = 403 then Err ''Authorization failed. Please supply a valid auth_key parameter.''
      else if status = 404 then Err ''The requested resource clould not be found.''
      else if status = 413 then Err ''The request size exceeds the limit.''
      else if status = 429 then Err ''Too many requests. Please wait and resend your request.''
      else if status = 456 then Err ''Quota exceeded. The character limit has been reached.''
      else if status = 503 then Err ''Resource currently unavailable. Try again later.''
      else if status \<ge> 500 then Err ''Internal error''
      else Err ''Unexpected error'')"


text \<open>The requests that a history hands to the transport, in order.\<close>

fun sent_requests :: "event list \<Rightarrow> Request list" where
  "sent_requests [] = []"
| "sent_requests (Created m u # evs) = sent_requests evs"
| "sent_requests (Sent hc req # evs) = req # sent_requests evs"

text \<open>
  A request carries the credential when the environment holds a non-empty
  \<open>DEEPL_API_KEY\<close> and that value is the last of the request's \<open>auth_key\<close>
  query values (\<open>Add\<close> appends).
\<close>

definition carries_credential :: "state \<Rightarrow> Request \<Rightarrow> bool" where
  "carries_credential s req =
     (case environ s ''DEEPL_API_KEY'' of
        None \<Rightarrow> False
      | Some apiKey \<Rightarrow> apiKey \<noteq> [] \<and> Values_index (RawQuery (URL req)) ''auth_key'' \<noteq> []
           \<and> last (Values_index (RawQuery (URL req)) ''auth_key'') = apiKey)"

section \<open>A concrete world for the examples\<close>

text \<open>
  The answers of the libraries and of a provider on the inputs that the examples
  below use.  \<open>example_Join\<close> is \<open>path.Join\<close> on elements that hold no slash and
  no dot segment; the decoders of \<open>ErrorResponse\<close> and \<open>AccountStatus\<close> know the
  bodies of the examples and take every other body for a syntax error.
\<close>

definition example_Join :: "string list \<Rightarrow> string" where
  "example_Join elems =
     (case filter (\<lambda>e. e \<noteq> []) elems of
        [] \<Rightarrow> []
      | e # es \<Rightarrow> foldl (\<lambda>a b. a @ ''/'' @ b) e es)"

definition example_URL :: URL where
  "example_URL = \<lparr>Scheme = ''https'', Host = ''api.deepl.com'', Path = [], RawQuery = Map.empty\<rparr>"

definition example_url_Parse :: "string \<Rightarrow> error + URL" where
  "example_url_Parse raw =
     (if raw = ''https://api.deepl.com'' then Inr example_URL
      else if raw = ''https://api.deepl.com?foo=bar''
        then Inr (example_URL\<lparr>RawQuery := [''foo'' \<mapsto> [''bar'']]\<rparr>)
      else Inl (LibErr ''missing protocol scheme''))"

definition example_Unmarshal_ErrorResponse ::
  "string \<Rightarrow> ErrorResponse \<Rightarrow> ErrorResponse \<times> error option" where
  "example_Unmarshal_ErrorResponse b v =
     (if b = ''{\"message\":\"Bad request.\"}'' then (v\<lparr>ErrMessage := ''Bad request.''\<rparr>, None)
      else if b = ''{}'' then (v, None)
      else (v, Some (LibErr ''invalid character'')))"

definition example_Unmarshal_AccountStatus ::
  "string \<Rightarrow> AccountStatus \<Rightarrow> AccountStatus \<times> error option" where
  "example_Unmarshal_AccountStatus b v =
     (if b = ''{\"character_count\":30315,\"character_limit\":1000000}''
        then (v\<lparr>CharacterCount := 30315, CharacterLimit := 1000000\<rparr>, None)
      else if b = ''{}'' then (v, None)
      else (v, Some (LibErr ''invalid character'')))"

definition example_Do :: "http_client \<Rightarrow> Request \<Rightarrow> error + Response" where
  "example_Do hc req =
     (if Path (URL req) = ''/v2/usage''
        then Inr \<lparr>StatusCode = 200, Body = Inr ''{\"character_count\":30315,\"character_limit\":1000000}''\<rparr>
      else if Path (URL req) = ''/v2/translate''
        then (if RawQuery (URL req) ''target_lang'' = Some [[]]
                then Inr \<lparr>StatusCode = 400, Body = Inr ''{\"message\":\"Bad request.\"}''\<rparr>
              else Inr \<lparr>StatusCode = 200,
                        Body = Inr ''{\"translations\":[{\"detected_source_language\":\"EN\",\"text\":\"Hallo\"}]}''\<rparr>)
      else Inl (LibErr ''connection refused''))"

definition example_lib :: lib where
  "example_lib =
     \<lparr>url_Parse = example_url_Parse,
      path_Join = example_Join,
      Unmarshal_ErrorResponse = example_Unmarshal_ErrorResponse,
      Unmarshal_reuse = (\<lambda>b v. (v, Some (LibErr ''invalid character''))),
      Unmarshal_AccountStatus = example_Unmarshal_AccountStatus,
      NewRequest_err = (\<lambda>method u. None),
      Parse_hostless = (\<lambda>u. u),
      Do = example_Do\<rparr>"

text \<open>
  A state with the credential in the environment.  The examples call the client
  at address 3, whose base URL is the object at address 2; every other address
  holds a copy of the same objects.
\<close>

definition example_state :: state where
  "example_state =
     \<lparr>urls = (\<lambda>a. example_URL),
      clients = (\<lambda>a. \<lparr>BaseURL = 2, HTTPClient = DefaultClient, Logger = None\<rparr>),
      brk = 4,
      environ = [''DEEPL_API_KEY'' \<mapsto> ''secret''],
      trace = []\<rparr>"


section \<open>Response classification\<close>

text \<open>
  Claim C1, as amended.  For every response whose body is read and, when the
  status is not 200 and the body is not empty, decodes as a provider error object,
  \<open>responseParse\<close> gives exactly the outcome of the status table: 200 decodes the
  success body (a decode error is wrapped as "Failed to parse Json"), and every
  other status gives the error of its row, in the order of the table, the row for
  400 carrying the provider's message after its fixed text.
\<close>

theorem responseParse_status_table:
  assumes "Body resp = Inr bodyBytes"
    and "StatusCode resp = 200 \<or> bodyBytes = []
           \<or> Unmarshal_ErrorResponse l bodyBytes zero_ErrorResponse = (errResp, None)"
  shows "responseParse l unmarshal resp outStruct =
     (if StatusCode resp = 200 then
        (case unmarshal bodyBytes outStruct of
           (out', None) \<Rightarrow> (out', None)
         | (out', Some err) \<Rightarrow> (out', Some (Wrap ''Failed to parse Json'' err)))
      else (outStruct,
            Some (spec_status_error (StatusCode resp)
                    (if bodyBytes = [] then [] else ErrMessage errResp))))"
proof (cases "StatusCode resp = 200")
  case True
  with assms(1) show ?thesis
    by (simp add: responseParse_def decodeBody_def split: prod.splits option.splits)
next
  case False
  show ?thesis
  proof (cases "bodyBytes = []")
    case True
    with False assms(1) show ?thesis
      by (simp add: responseParse_def spec_status_error_def)
  next
    case nonempty: False
    with False assms(2)
    have "Unmarshal_ErrorResponse l bodyBytes zero_ErrorResponse = (errResp, None)"
      by simp
    with False nonempty assms(1) show ?thesis
      by (simp add: responseParse_def decodeBody_def spec_status_error_def)
  qed
qed

text \<open>
  The theorem at a 400 response with the body \<open>{"message":"Bad request."}\<close>: the
  error text ends with the provider's message.
\<close>

theorem responseParse_status_table_witness:
  "Body \<lparr>StatusCode = 400, Body = Inr ''{\"message\":\"Bad request.\"}''\<rparr> = Inr ''{\"message\":\"Bad request.\"}''
   \<and> Unmarshal_ErrorResponse example_lib ''{\"message\":\"Bad request.\"}'' zero_ErrorResponse
         = (\<lparr>ErrMessage = ''Bad request.''\<rparr>, None)
   \<and> responseParse example_lib (Unmarshal_TranslateResponse example_lib)
         \<lparr>StatusCode = 400, Body = Inr ''{\"message\":\"Bad request.\"}''\<rparr> zero_TranslateResponse
       = (zero_TranslateResponse,
          Some (Err ''Bad request. Please check error message and your parameters. Error message is Bad request.''))"
proof -
  have dec: "Unmarshal_ErrorResponse example_lib ''{\"message\":\"Bad request.\"}'' zero_ErrorResponse
         = (\<lparr>ErrMessage = ''Bad request.''\<rparr>, None)"
    by (simp add: example_lib_def example_Unmarshal_ErrorResponse_def zero_ErrorResponse_def)
  have body: "Body \<lparr>StatusCode = 400, Body = Inr ''{\"message\":\"Bad request.\"}''\<rparr> = Inr ''{\"message\":\"Bad request.\"}''"
    by simp
  from responseParse_status_table [OF body disjI2 [OF disjI2 [OF dec]],
      of "Unmarshal_TranslateResponse example_lib" zero_TranslateResponse]
  show ?thesis using dec by (simp add: spec_status_error_def)
qed

text \<open>
  Claim C1 as stated fails: a 403 response whose body is not JSON (an HTML error
  page) does not give the "Authorization failed" error of the table but the
  error of the failed decode of the error body.
\<close>

theorem responseParse_403_undecodable_body:
  "responseParse example_lib (Unmarshal_TranslateResponse example_lib)
     \<lparr>StatusCode = 403, Body = Inr ''<html>Forbidden</html>''\<rparr> zero_TranslateResponse
   = (zero_TranslateResponse, Some (Wrap ''Failed to decode error response'' (LibErr ''invalid character'')))
   \<and> Wrap ''Failed to decode error response'' (LibErr ''invalid character'')
       \<noteq> Err ''Authorization failed. Please supply a valid auth_key parameter.''"
  by (simp add: responseParse_def decodeBody_def example_lib_def example_Unmarshal_ErrorResponse_def)

text \<open>
  Claim C4.  For every response with a status other than 200 and a non-empty
  body, \<open>responseParse\<close> first decodes the body as a provider error object.  If the
  decode fails, the call returns that failure wrapped as "Failed to decode error
  response", not the error of the status table; if it succeeds, the message of
  the decoded object is the one the status table receives (the row for 400 uses
  it).
\<close>

theorem responseParse_error_body_first:
  assumes "Body resp = Inr bodyBytes" and "StatusCode resp \<noteq> 200" and "bodyBytes \<noteq> []"
  shows "responseParse l unmarshal resp outStruct =
     (case Unmarshal_ErrorResponse l bodyBytes zero_ErrorResponse of
        (errResp, Some err) \<Rightarrow> (outStruct, Some (Wrap ''Failed to decode error response'' err))
      | (errResp, None) \<Rightarrow> (outStruct, Some (spec_status_error (StatusCode resp) (ErrMessage errResp))))"
  using assms
  by (simp add: responseParse_def spec_status_error_def decodeBody_def split: prod.splits option.splits)

theorem responseParse_error_body_first_witness:
  "Body \<lparr>StatusCode = 503, Body = Inr ''<html>Forbidden</html>''\<rparr> = Inr ''<html>Forbidden</html>''
   \<and> StatusCode \<lparr>StatusCode = 503, Body = Inr ''<html>Forbidden</html>''\<rparr> \<noteq> 200
   \<and> ''<html>Forbidden</html>'' \<noteq> []
   \<and> responseParse example_lib (Unmarshal_AccountStatus example_lib)
        \<lparr>StatusCode = 503, Body = Inr ''<html>Forbidden</html>''\<rparr> zero_AccountStatus
      = (zero_AccountStatus, Some (Wrap ''Failed to decode error response'' (LibErr ''invalid character'')))"
  using responseParse_error_body_first
    [of "\<lparr>StatusCode = 503, Body = Inr ''<html>Forbidden</html>''\<rparr>" "''<html>Forbidden</html>''"
        example_lib "Unmarshal_AccountStatus example_lib" zero_AccountStatus]
  by (simp add: example_lib_def example_Unmarshal_ErrorResponse_def)

text \<open>
  Claim C10.  For every response with a status other than 200 and an empty body
  the decode of the error body is skipped: whatever the decoders are, the call
  returns the error of the status table for an empty provider message, which for
  400 is the fixed text with nothing after it, and never a decode error.
\<close>

theorem responseParse_empty_error_body:
  assumes "Body resp = Inr []" and "StatusCode resp \<noteq> 200"
  shows "responseParse l unmarshal resp outStruct
           = (outStruct, Some (spec_status_error (StatusCode resp) []))"
  using assms by (simp add: responseParse_def spec_status_error_def)

theorem responseParse_empty_error_body_witness:
  "Body \<lparr>StatusCode = 400, Body = Inr []\<rparr> = Inr []
   \<and> StatusCode \<lparr>StatusCode = 400, Body = Inr []\<rparr> \<noteq> 200
   \<and> responseParse example_lib (Unmarshal_TranslateResponse example_lib)
        \<lparr>StatusCode = 400, Body = Inr []\<rparr> zero_TranslateResponse
      = (zero_TranslateResponse,
         Some (Err ''Bad request. Please check error message and your parameters. Error message is ''))"
  using responseParse_empty_error_body
    [of "\<lparr>StatusCode = 400, Body = Inr []\<rparr>" example_lib
        "Unmarshal_TranslateResponse example_lib" zero_TranslateResponse]
  by (simp add: spec_status_error_def)


text \<open>
  The rows of the table one by one, with 500 and 502 for the generic 5xx row and
  418 and 302 for the last row, and the text of the two errors that carry a
  message from outside.
\<close>

lemma spec_status_error_rows:
  "spec_status_error 400 m = Err (''Bad request. Please check error message and your parameters. Error message is '' @ m)"
  "spec_status_error 403 m = Err ''Authorization failed. Please supply a valid auth_key parameter.''"
  "spec_status_error 404 m = Err ''The requested resource clould not be found.''"
  "spec_status_error 413 m = Err ''The request size exceeds the limit.''"
  "spec_status_error 429 m = Err ''Too many requests. Please wait and resend your request.''"
  "spec_status_error 456 m = Err ''Quota exceeded. The character limit has been reached.''"
  "spec_status_error 503 m = Err ''Resource currently unavailable. Try again later.''"
  "spec_status_error 500 m = Err ''Internal error''"
  "spec_status_error 502 m = Err ''Internal error''"
  "spec_status_error 418 m = Err ''Unexpected error''"
  "spec_status_error 302 m = Err ''Unexpected error''"
  by (simp_all add: spec_status_error_def)

lemma bad_request_message:
  "Error (spec_status_error 400 message)
     = ''Bad request. Please check error message and your parameters. Error message is '' @ message"
  by (simp add: spec_status_error_def)

lemma decode_error_message:
  "Error (Wrap ''Failed to decode error response'' err) = ''Failed to decode error response: '' @ Error err"
  by simp

section \<open>The paths through the two operations\<close>

text \<open>
  The credential check has three outcomes.  With the credential set, a call either
  stops at \<open>http.NewRequest\<close> or creates one request, sends it and classifies
  the answer; without it, the call returns the error of \<open>getAPIKey\<close> at once.
\<close>

lemma getAPIKey_set:
  "environ s ''DEEPL_API_KEY'' = Some apiKey \<Longrightarrow> apiKey \<noteq> [] \<Longrightarrow> getAPIKey s = (apiKey, None)"
  by (simp add: getAPIKey_def Getenv_def)

lemma getAPIKey_unset:
  "environ s ''DEEPL_API_KEY'' = None \<Longrightarrow> getAPIKey s = ([], Some (Err ''Not set API key environment''))"
  by (simp add: getAPIKey_def)

lemma getAPIKey_empty:
  "environ s ''DEEPL_API_KEY'' = Some [] \<Longrightarrow> getAPIKey s = ([], Some (Err ''DEEPL_API_KEY is empty''))"
  by (simp add: getAPIKey_def)

lemma RawQuery_String_Parse: "RawQuery (String_Parse l u) = RawQuery u"
  by (simp add: String_Parse_def)

lemma TranslateSentence_run:
  assumes "environ s ''DEEPL_API_KEY'' = Some apiKey" and "apiKey \<noteq> []"
    and "base = urls s (BaseURL (clients s c))"
    and "reqURL = base\<lparr>Path := path_Join l [Path base, ''v2'', ''translate''],
            RawQuery := Add (Add (Add (Add (RawQuery base) ''auth_key'' apiKey) ''text'' txt)
                               ''target_lang'' targetLang) ''source_lang'' sourceLang\<rparr>"
    and "NewRequest_err l ''POST'' reqURL = None"
    and "req = \<lparr>Method = ''POST'', URL = String_Parse l reqURL,
                 Header = [''User-Agent'' \<mapsto> [''Deepl-Go-Client'']], Ctx = ctx\<rparr>"
    and "s' = s\<lparr>trace := trace s @ [Created ''POST'' reqURL, Sent (HTTPClient (clients s c)) req]\<rparr>"
  shows "TranslateSentence l c ctx txt sourceLang targetLang s =
     (case Do l (HTTPClient (clients s c)) req of
        Inl err \<Rightarrow> ((None, Some (Wrap ''Failed to send http request'' err)), s')
      | Inr resp \<Rightarrow>
          (case responseParse l (Unmarshal_TranslateResponse l) resp zero_TranslateResponse of
             (transResp, Some err) \<Rightarrow> ((None, Some err), s')
           | (transResp, None) \<Rightarrow> ((Some transResp, None), s')))"
  using assms
  by (simp add: TranslateSentence_def getAPIKey_set Let_def Query_def Encode_def NewRequest_def
      HTTPClient_Do_def Header_Set_def split: sum.splits prod.splits option.splits)

lemma GetAccountStatus_run:
  assumes "environ s ''DEEPL_API_KEY'' = Some apiKey" and "apiKey \<noteq> []"
    and "base = urls s (BaseURL (clients s c))"
    and "reqURL = base\<lparr>Path := path_Join l [Path base, ''v2'', ''usage''],
            RawQuery := Add (RawQuery base) ''auth_key'' apiKey\<rparr>"
    and "NewRequest_err l ''POST'' reqURL = None"
    and "req = \<lparr>Method = ''POST'', URL = String_Parse l reqURL,
                 Header = [''User-Agent'' \<mapsto> [''Deepl-Go-Client'']], Ctx = ctx\<rparr>"
    and "s' = s\<lparr>trace := trace s @ [Created ''POST'' reqURL, Sent (HTTPClient (clients s c)) req]\<rparr>"
  shows "GetAccountStatus l c ctx s =
     (case Do l (HTTPClient (clients s c)) req of
        Inl err \<Rightarrow> ((None, Some (Wrap ''Failed to send http request'' err)), s')
      | Inr resp \<Rightarrow>
          (case responseParse l (Unmarshal_AccountStatus l) resp zero_AccountStatus of
             (accountStatusResp, Some err) \<Rightarrow> ((None, Some err), s')
           | (accountStatusResp, None) \<Rightarrow> ((Some accountStatusResp, None), s')))"
  using assms
  by (simp add: GetAccountStatus_def getAPIKey_set Let_def Query_def Encode_def NewRequest_def
      HTTPClient_Do_def Header_Set_def split: sum.splits prod.splits option.splits)

lemma TranslateSentence_rejected:
  assumes "environ s ''DEEPL_API_KEY'' = Some apiKey" and "apiKey \<noteq> []"
    and "base = urls s (BaseURL (clients s c))"
    and "reqURL = base\<lparr>Path := path_Join l [Path base, ''v2'', ''translate''],
            RawQuery := Add (Add (Add (Add (RawQuery base) ''auth_key'' apiKey) ''text'' txt)
                               ''target_lang'' targetLang) ''source_lang'' sourceLang\<rparr>"
    and "NewRequest_err l ''POST'' reqURL = Some err"
  shows "TranslateSentence l c ctx txt sourceLang targetLang s =
           ((None, Some (Wrap ''Failed to create request'' err)), s)"
  using assms
  by (simp add: TranslateSentence_def getAPIKey_set Let_def Query_def Encode_def NewRequest_def)

lemma GetAccountStatus_rejected:
  assumes "environ s ''DEEPL_API_KEY'' = Some apiKey" and "apiKey \<noteq> []"
    and "base = urls s (BaseURL (clients s c))"
    and "reqURL = base\<lparr>Path := path_Join l [Path base, ''v2'', ''usage''],
            RawQuery := Add (RawQuery base) ''auth_key'' apiKey\<rparr>"
    and "NewRequest_err l ''POST'' reqURL = Some err"
  shows "GetAccountStatus l c ctx s = ((None, Some (Wrap ''Failed to create request'' err)), s)"
  using assms
  by (simp add: GetAccountStatus_def getAPIKey_set Let_def Query_def Encode_def NewRequest_def)

lemma TranslateSentence_no_key:
  assumes "getAPIKey s = (k, Some err)"
  shows "TranslateSentence l c ctx txt sourceLang targetLang s = ((None, Some err), s)"
  using assms by (simp add: TranslateSentence_def Let_def)

lemma GetAccountStatus_no_key:
  assumes "getAPIKey s = (k, Some err)"
  shows "GetAccountStatus l c ctx s = ((None, Some err), s)"
  using assms by (simp add: GetAccountStatus_def Let_def)


section \<open>The translate operation on a 200 response\<close>


text \<open>
  The decoder on other documents: a key in another case and an unknown key, a
  \<open>text\<close> of the wrong kind (the field is skipped, the rest is filled, the error
  is returned), \<open>null\<close>, and an array in place of the object.
\<close>

lemma value_TranslateResponse_examples:
  "value_TranslateResponse
     (JObject [(''id'', JNumber ''7''),
               (''Translations'', JArray [JObject [(''TEXT'', JString ''Hallo'')]])])
     zero_TranslateResponse
   = (\<lparr>Translations = [\<lparr>DetectedSourceLanguage = [], Text = ''Hallo''\<rparr>]\<rparr>, None)"
  "value_TranslateResponse
     (JObject [(''translations'',
                JArray [JObject [(''detected_source_language'', JString ''EN''),
                                 (''text'', JNumber ''5'')]])])
     zero_TranslateResponse
   = (\<lparr>Translations = [\<lparr>DetectedSourceLanguage = ''EN'', Text = []\<rparr>]\<rparr>,
      Some (LibErr ''json: cannot unmarshal number into Go struct field translation.translations.text of type string''))"
  "value_TranslateResponse JNull zero_TranslateResponse = (zero_TranslateResponse, None)"
  "value_TranslateResponse (JArray []) zero_TranslateResponse
   = (zero_TranslateResponse,
      Some (LibErr ''json: cannot unmarshal array into Go value of type deepl.TranslateResponse''))"
  by (simp_all add: zero_TranslateResponse_def matches_def ToUpper_def saveError_def
      UnmarshalTypeError_def)

lemma json_parse_examples:
  "json_parse ''{\"translations\":[{\"detected_source_language\":\"EN\",\"text\":\"Hallo\"}]}''
     = Inr (JObject [(''translations'',
              JArray [JObject [(''detected_source_language'', JString ''EN''),
                               (''text'', JString ''Hallo'')]])])"
  "json_parse ''{\"translations\":[{\"detected_source_language\":\"EN\",\"text\":5}]}''
     = Inr (JObject [(''translations'',
              JArray [JObject [(''detected_source_language'', JString ''EN''),
                               (''text'', JNumber ''5'')]])])"
  "json_parse ''<html>Bad gateway</html>'' = Inl (LibErr ''invalid character'')"
  by code_simp+






section \<open>The credential\<close>

lemma TranslateSentence_trace:
  "trace (snd (TranslateSentence l c ctx txt sourceLang targetLang s)) = trace s
   \<or> (\<exists>apiKey u req. environ s ''DEEPL_API_KEY'' = Some apiKey \<and> apiKey \<noteq> []
         \<and> last (Values_index (RawQuery (URL req)) ''auth_key'') = apiKey
         \<and> Values_index (RawQuery (URL req)) ''auth_key'' \<noteq> []
         \<and> trace (snd (TranslateSentence l c ctx txt sourceLang targetLang s))
               = trace s @ [Created ''POST'' u, Sent (HTTPClient (clients s c)) req])"
proof (cases "environ s ''DEEPL_API_KEY''")
  case None
  then show ?thesis
    by (simp add: TranslateSentence_no_key [OF getAPIKey_unset])
next
  case (Some apiKey)
  show ?thesis
  proof (cases "apiKey = []")
    case True
    with Some show ?thesis
      by (simp add: TranslateSentence_no_key [OF getAPIKey_empty])
  next
    case False
    let ?base = "urls s (BaseURL (clients s c))"
    let ?u = "?base\<lparr>Path := path_Join l [Path ?base, ''v2'', ''translate''],
            RawQuery := Add (Add (Add (Add (RawQuery ?base) ''auth_key'' apiKey) ''text'' txt)
                               ''target_lang'' targetLang) ''source_lang'' sourceLang\<rparr>"
    show ?thesis
    proof (cases "NewRequest_err l ''POST'' ?u")
      case None
      have "Values_index (RawQuery (String_Parse l ?u)) ''auth_key''
              = Values_index (RawQuery ?base) ''auth_key'' @ [apiKey]"
        by (simp add: RawQuery_String_Parse Add_def Values_index_def)
      with Some False show ?thesis
        by (auto simp add: TranslateSentence_run [OF Some False refl refl None refl refl]
            split: sum.splits prod.splits option.splits)
    next
      case (Some err)
      from TranslateSentence_rejected [OF \<open>environ s ''DEEPL_API_KEY'' = Some apiKey\<close> False refl refl Some]
      show ?thesis by simp
    qed
  qed
qed

lemma GetAccountStatus_trace:
  "trace (snd (GetAccountStatus l c ctx s)) = trace s
   \<or> (\<exists>apiKey u req. environ s ''DEEPL_API_KEY'' = Some apiKey \<and> apiKey \<noteq> []
         \<and> last (Values_index (RawQuery (URL req)) ''auth_key'') = apiKey
         \<and> Values_index (RawQuery (URL req)) ''auth_key'' \<noteq> []
         \<and> trace (snd (GetAccountStatus l c ctx s))
               = trace s @ [Created ''POST'' u, Sent (HTTPClient (clients s c)) req])"
proof (cases "environ s ''DEEPL_API_KEY''")
  case None
  then show ?thesis
    by (simp add: GetAccountStatus_no_key [OF getAPIKey_unset])
next
  case (Some apiKey)
  show ?thesis
  proof (cases "apiKey = []")
    case True
    with Some show ?thesis
      by (simp add: GetAccountStatus_no_key [OF getAPIKey_empty])
  next
    case False
    let ?base = "urls s (BaseURL (clients s c))"
    let ?u = "?base\<lparr>Path := path_Join l [Path ?base, ''v2'', ''usage''],
            RawQuery := Add (RawQuery ?base) ''auth_key'' apiKey\<rparr>"
    show ?thesis
    proof (cases "NewRequest_err l ''POST'' ?u")
      case None
      have "Values_index (RawQuery (String_Parse l ?u)) ''auth_key''
              = Values_index (RawQuery ?base) ''auth_key'' @ [apiKey]"
        by (simp add: RawQuery_String_Parse Add_def Values_index_def)
      with Some False show ?thesis
        by (auto simp add: GetAccountStatus_run [OF Some False refl refl None refl refl]
            split: sum.splits prod.splits option.splits)
    next
      case (Some err)
      from GetAccountStatus_rejected [OF \<open>environ s ''DEEPL_API_KEY'' = Some apiKey\<close> False refl refl Some]
      show ?thesis by simp
    qed
  qed
qed

text \<open>
  Claim C3.  If \<open>DEEPL_API_KEY\<close> is absent from the environment or is the empty
  string, \<open>TranslateSentence\<close> and \<open>GetAccountStatus\<close> return no result and the
  error of \<open>getAPIKey\<close> ("Not set API key environment", "DEEPL_API_KEY is
  empty") and leave the state as it was: no request has been created or sent.
  Conversely a call only ever extends the history, and every request it sends
  carries the credential as its \<open>auth_key\<close> query parameter.
\<close>

theorem credential_checked_before_request:
  "(environ s ''DEEPL_API_KEY'' = None \<or> environ s ''DEEPL_API_KEY'' = Some [] \<longrightarrow>
      TranslateSentence l c ctx txt sourceLang targetLang s = ((None, snd (getAPIKey s)), s)
      \<and> GetAccountStatus l c ctx s = ((None, snd (getAPIKey s)), s)
      \<and> snd (getAPIKey s) = Some (Err (if environ s ''DEEPL_API_KEY'' = None
                                         then ''Not set API key environment''
                                         else ''DEEPL_API_KEY is empty'')))
   \<and> take (length (trace s)) (trace (snd (TranslateSentence l c ctx txt sourceLang targetLang s))) = trace s
   \<and> take (length (trace s)) (trace (snd (GetAccountStatus l c ctx s))) = trace s
   \<and> (\<forall>req \<in> set (sent_requests (drop (length (trace s))
                      (trace (snd (TranslateSentence l c ctx txt sourceLang targetLang s))))).
         carries_credential s req)
   \<and> (\<forall>req \<in> set (sent_requests (drop (length (trace s)) (trace (snd (GetAccountStatus l c ctx s))))).
         carries_credential s req)"
proof -
  have absent: "TranslateSentence l c ctx txt sourceLang targetLang s = ((None, snd (getAPIKey s)), s)
      \<and> GetAccountStatus l c ctx s = ((None, snd (getAPIKey s)), s)
      \<and> snd (getAPIKey s) = Some (Err (if environ s ''DEEPL_API_KEY'' = None
                                         then ''Not set API key environment''
                                         else ''DEEPL_API_KEY is empty''))"
    if "environ s ''DEEPL_API_KEY'' = None \<or> environ s ''DEEPL_API_KEY'' = Some []"
    using that
    by (auto simp add: getAPIKey_unset getAPIKey_empty
        TranslateSentence_no_key [OF getAPIKey_unset] TranslateSentence_no_key [OF getAPIKey_empty]
        GetAccountStatus_no_key [OF getAPIKey_unset] GetAccountStatus_no_key [OF getAPIKey_empty])
  have t: "take (length (trace s)) (trace (snd (TranslateSentence l c ctx txt sourceLang targetLang s))) = trace s
    \<and> (\<forall>req \<in> set (sent_requests (drop (length (trace s))
                      (trace (snd (TranslateSentence l c ctx txt sourceLang targetLang s))))).
         carries_credential s req)"
    using TranslateSentence_trace [of l c ctx "txt" sourceLang targetLang s]
    by (auto simp add: carries_credential_def)
  have g: "take (length (trace s)) (trace (snd (GetAccountStatus l c ctx s))) = trace s
    \<and> (\<forall>req \<in> set (sent_requests (drop (length (trace s)) (trace (snd (GetAccountStatus l c ctx s))))).
         carries_credential s req)"
    using GetAccountStatus_trace [of l c ctx s]
    by (auto simp add: carries_credential_def)
  from absent t g show ?thesis by blast
qed

text \<open>
  The example call: the credential is set, the provider answers with one
  translation.
\<close>

lemma example_TranslateSentence:
  "TranslateSentence example_lib 3 Background ''Hello'' ''EN'' ''DE'' example_state =
     ((Some \<lparr>Translations = [\<lparr>DetectedSourceLanguage = ''EN'', Text = ''Hallo''\<rparr>]\<rparr>, None),
      example_state\<lparr>trace :=
        [Created ''POST''
           (example_URL\<lparr>Path := ''v2/translate'',
              RawQuery := [''auth_key'' \<mapsto> [''secret''], ''text'' \<mapsto> [''Hello''],
                           ''target_lang'' \<mapsto> [''DE''], ''source_lang'' \<mapsto> [''EN'']]\<rparr>),
         Sent DefaultClient
           \<lparr>Method = ''POST'',
            URL = example_URL\<lparr>Path := ''/v2/translate'',
              RawQuery := [''auth_key'' \<mapsto> [''secret''], ''text'' \<mapsto> [''Hello''],
                           ''target_lang'' \<mapsto> [''DE''], ''source_lang'' \<mapsto> [''EN'']]\<rparr>,
            Header = [''User-Agent'' \<mapsto> [''Deepl-Go-Client'']], Ctx = Background\<rparr>]\<rparr>)"
  by (simp add: TranslateSentence_def getAPIKey_def Getenv_def Let_def Query_def Encode_def
      NewRequest_def HTTPClient_Do_def Header_Set_def responseParse_def decodeBody_def
      example_state_def example_lib_def example_Join_def example_URL_def example_Do_def
      Unmarshal_TranslateResponse_def json_parse_examples reuses_slice_def matches_def
      ToUpper_def saveError_def UnmarshalTypeError_def String_Parse_def ToLower_def rooted_def removeEmptyPort_def zero_TranslateResponse_def Add_def Values_index_def)

theorem credential_checked_before_request_witness:
  "environ (example_state\<lparr>environ := Map.empty\<rparr>) ''DEEPL_API_KEY'' = None
   \<and> TranslateSentence example_lib 3 Background ''Hello'' ''EN'' ''DE'' (example_state\<lparr>environ := Map.empty\<rparr>)
       = ((None, Some (Err ''Not set API key environment'')), example_state\<lparr>environ := Map.empty\<rparr>)
   \<and> GetAccountStatus example_lib 3 Background (example_state\<lparr>environ := Map.empty\<rparr>)
       = ((None, Some (Err ''Not set API key environment'')), example_state\<lparr>environ := Map.empty\<rparr>)
   \<and> sent_requests (drop (length (trace example_state))
         (trace (snd (TranslateSentence example_lib 3 Background ''Hello'' ''EN'' ''DE'' example_state))))
       = [\<lparr>Method = ''POST'',
            URL = example_URL\<lparr>Path := ''/v2/translate'',
              RawQuery := [''auth_key'' \<mapsto> [''secret''], ''text'' \<mapsto> [''Hello''],
                           ''target_lang'' \<mapsto> [''DE''], ''source_lang'' \<mapsto> [''EN'']]\<rparr>,
            Header = [''User-Agent'' \<mapsto> [''Deepl-Go-Client'']], Ctx = Background\<rparr>]
   \<and> carries_credential example_state
         \<lparr>Method = ''POST'',
            URL = example_URL\<lparr>Path := ''/v2/translate'',
              RawQuery := [''auth_key'' \<mapsto> [''secret''], ''text'' \<mapsto> [''Hello''],
                           ''target_lang'' \<mapsto> [''DE''], ''source_lang'' \<mapsto> [''EN'']]\<rparr>,
            Header = [''User-Agent'' \<mapsto> [''Deepl-Go-Client'']], Ctx = Background\<rparr>"
proof -
  let ?s0 = "example_state\<lparr>environ := Map.empty\<rparr>"
  have unset: "environ ?s0 ''DEEPL_API_KEY'' = None"
    by simp
  have err: "snd (getAPIKey ?s0) = Some (Err ''Not set API key environment'')"
    by (simp add: getAPIKey_def)
  have sent: "sent_requests (drop (length (trace example_state))
         (trace (snd (TranslateSentence example_lib 3 Background ''Hello'' ''EN'' ''DE'' example_state))))
       = [\<lparr>Method = ''POST'',
            URL = example_URL\<lparr>Path := ''/v2/translate'',
              RawQuery := [''auth_key'' \<mapsto> [''secret''], ''text'' \<mapsto> [''Hello''],
                           ''target_lang'' \<mapsto> [''DE''], ''source_lang'' \<mapsto> [''EN'']]\<rparr>,
            Header = [''User-Agent'' \<mapsto> [''Deepl-Go-Client'']], Ctx = Background\<rparr>]"
    unfolding example_TranslateSentence by (simp add: example_state_def)
  from credential_checked_before_request
         [of ?s0 example_lib 3 Background "''Hello''" "''EN''" "''DE''"]
       unset err
  have first: "TranslateSentence example_lib 3 Background ''Hello'' ''EN'' ''DE'' ?s0
       = ((None, Some (Err ''Not set API key environment'')), ?s0)
     \<and> GetAccountStatus example_lib 3 Background ?s0
       = ((None, Some (Err ''Not set API key environment'')), ?s0)"
    by simp
  from credential_checked_before_request
         [of example_state example_lib 3 Background "''Hello''" "''EN''" "''DE''"]
       sent
  have second: "carries_credential example_state
         \<lparr>Method = ''POST'',
            URL = example_URL\<lparr>Path := ''/v2/translate'',
              RawQuery := [''auth_key'' \<mapsto> [''secret''], ''text'' \<mapsto> [''Hello''],
                           ''target_lang'' \<mapsto> [''DE''], ''source_lang'' \<mapsto> [''EN'']]\<rparr>,
            Header = [''User-Agent'' \<mapsto> [''Deepl-Go-Client'']], Ctx = Background\<rparr>"
    by simp
  from unset first sent second show ?thesis by blast
qed


section \<open>The requests that are built\<close>

lemma Values_index_Add:
  "Values_index (Add v key val) k = Values_index v k @ (if k = key then [val] else [])"
  by (simp add: Add_def Values_index_def)

lemma dom_Add: "dom (Add v key val) = insert key (dom v)"
  by (simp add: Add_def)

text \<open>
  Claim C6, as amended.  Whenever the credential is set and \<open>http.NewRequest\<close>
  accepts the URL, \<open>TranslateSentence\<close> creates and sends exactly one request:
  method POST, the header \<open>User-Agent: Deepl-Go-Client\<close>, the caller's context,
  and the URL that \<open>http.NewRequest\<close> reads back from \<open>reqURL.String()\<close>.  For a
  base URL with a host that is the scheme (in lower case) and the host of the
  base URL (an empty port dropped) and the path \<open>path.Join(base path, "v2", "translate")\<close>, with a
  slash put before it if it has none.  Its query is the query of the base URL
  with the credential appended under \<open>auth_key\<close> and the arguments under \<open>text\<close>,
  \<open>target_lang\<close> and \<open>source_lang\<close>; the keys are exactly these four when the base
  URL has no query.  \<open>GetAccountStatus\<close> does the same for the path ending in
  \<open>v2/usage\<close>, adding only \<open>auth_key\<close>.
\<close>

theorem requests_built:
  assumes "environ s ''DEEPL_API_KEY'' = Some apiKey" and "apiKey \<noteq> []"
    and "base = urls s (BaseURL (clients s c))"
    and "translateURL = base\<lparr>Path := path_Join l [Path base, ''v2'', ''translate''],
            RawQuery := Add (Add (Add (Add (RawQuery base) ''auth_key'' apiKey) ''text'' txt)
                               ''target_lang'' targetLang) ''source_lang'' sourceLang\<rparr>"
    and "usageURL = base\<lparr>Path := path_Join l [Path base, ''v2'', ''usage''],
            RawQuery := Add (RawQuery base) ''auth_key'' apiKey\<rparr>"
    and "NewRequest_err l ''POST'' translateURL = None"
    and "NewRequest_err l ''POST'' usageURL = None"
  shows "trace (snd (TranslateSentence l c ctx txt sourceLang targetLang s))
           = trace s @ [Created ''POST'' translateURL,
                        Sent (HTTPClient (clients s c))
                          \<lparr>Method = ''POST'', URL = String_Parse l translateURL,
                           Header = [''User-Agent'' \<mapsto> [''Deepl-Go-Client'']], Ctx = ctx\<rparr>]
     \<and> trace (snd (GetAccountStatus l c ctx s))
           = trace s @ [Created ''POST'' usageURL,
                        Sent (HTTPClient (clients s c))
                          \<lparr>Method = ''POST'', URL = String_Parse l usageURL,
                           Header = [''User-Agent'' \<mapsto> [''Deepl-Go-Client'']], Ctx = ctx\<rparr>]
     \<and> (Host base \<noteq> [] \<longrightarrow>
           Scheme (String_Parse l translateURL) = map ToLower (Scheme base)
         \<and> Host (String_Parse l translateURL) = removeEmptyPort (Host base)
         \<and> Path (String_Parse l translateURL) = rooted (path_Join l [Path base, ''v2'', ''translate''])
         \<and> Scheme (String_Parse l usageURL) = map ToLower (Scheme base)
         \<and> Host (String_Parse l usageURL) = removeEmptyPort (Host base)
         \<and> Path (String_Parse l usageURL) = rooted (path_Join l [Path base, ''v2'', ''usage'']))
     \<and> Values_index (RawQuery (String_Parse l translateURL)) key
           = Values_index (RawQuery base) key
               @ (if key = ''auth_key'' then [apiKey]
                  else if key = ''text'' then [txt]
                  else if key = ''target_lang'' then [targetLang]
                  else if key = ''source_lang'' then [sourceLang]
                  else [])
     \<and> Values_index (RawQuery (String_Parse l usageURL)) key
           = Values_index (RawQuery base) key @ (if key = ''auth_key'' then [apiKey] else [])
     \<and> dom (RawQuery (String_Parse l translateURL))
           = dom (RawQuery base) \<union> {''auth_key'', ''text'', ''target_lang'', ''source_lang''}
     \<and> dom (RawQuery (String_Parse l usageURL)) = dom (RawQuery base) \<union> {''auth_key''}"
proof -
  have t: "trace (snd (TranslateSentence l c ctx txt sourceLang targetLang s))
           = trace s @ [Created ''POST'' translateURL,
                        Sent (HTTPClient (clients s c))
                          \<lparr>Method = ''POST'', URL = String_Parse l translateURL,
                           Header = [''User-Agent'' \<mapsto> [''Deepl-Go-Client'']], Ctx = ctx\<rparr>]"
    by (simp add: TranslateSentence_run [OF assms(1,2,3,4,6) refl refl]
        split: sum.splits prod.splits option.splits)
  have g: "trace (snd (GetAccountStatus l c ctx s))
           = trace s @ [Created ''POST'' usageURL,
                        Sent (HTTPClient (clients s c))
                          \<lparr>Method = ''POST'', URL = String_Parse l usageURL,
                           Header = [''User-Agent'' \<mapsto> [''Deepl-Go-Client'']], Ctx = ctx\<rparr>]"
    by (simp add: GetAccountStatus_run [OF assms(1,2,3,5,7) refl refl]
        split: sum.splits prod.splits option.splits)
  have u: "Scheme (String_Parse l translateURL) = map ToLower (Scheme base)
         \<and> Host (String_Parse l translateURL) = removeEmptyPort (Host base)
         \<and> Path (String_Parse l translateURL) = rooted (path_Join l [Path base, ''v2'', ''translate''])
         \<and> Scheme (String_Parse l usageURL) = map ToLower (Scheme base)
         \<and> Host (String_Parse l usageURL) = removeEmptyPort (Host base)
         \<and> Path (String_Parse l usageURL) = rooted (path_Join l [Path base, ''v2'', ''usage''])"
    if "Host base \<noteq> []"
    using that by (simp add: assms(4,5) String_Parse_def)
  have qt: "Values_index (RawQuery (String_Parse l translateURL)) key
           = Values_index (RawQuery base) key
               @ (if key = ''auth_key'' then [apiKey]
                  else if key = ''text'' then [txt]
                  else if key = ''target_lang'' then [targetLang]
                  else if key = ''source_lang'' then [sourceLang]
                  else [])"
    by (simp add: RawQuery_String_Parse assms(4) Values_index_Add)
  have qg: "Values_index (RawQuery (String_Parse l usageURL)) key
           = Values_index (RawQuery base) key @ (if key = ''auth_key'' then [apiKey] else [])"
    by (simp add: RawQuery_String_Parse assms(5) Values_index_Add)
  have d: "dom (RawQuery (String_Parse l translateURL))
           = dom (RawQuery base) \<union> {''auth_key'', ''text'', ''target_lang'', ''source_lang''}
     \<and> dom (RawQuery (String_Parse l usageURL)) = dom (RawQuery base) \<union> {''auth_key''}"
    by (auto simp add: RawQuery_String_Parse assms(4,5) dom_Add)
  from t g u qt qg d show ?thesis by blast
qed

text \<open>The example usage call.\<close>

lemma example_GetAccountStatus:
  "GetAccountStatus example_lib 3 Background example_state =
     ((Some \<lparr>CharacterCount = 30315, CharacterLimit = 1000000\<rparr>, None),
      example_state\<lparr>trace :=
        [Created ''POST'' (example_URL\<lparr>Path := ''v2/usage'', RawQuery := [''auth_key'' \<mapsto> [''secret'']]\<rparr>),
         Sent DefaultClient
           \<lparr>Method = ''POST'',
            URL = example_URL\<lparr>Path := ''/v2/usage'', RawQuery := [''auth_key'' \<mapsto> [''secret'']]\<rparr>,
            Header = [''User-Agent'' \<mapsto> [''Deepl-Go-Client'']], Ctx = Background\<rparr>]\<rparr>)"
  by (simp add: GetAccountStatus_def getAPIKey_def Getenv_def Let_def Query_def Encode_def
      NewRequest_def HTTPClient_Do_def Header_Set_def responseParse_def decodeBody_def
      example_state_def example_lib_def example_Join_def example_URL_def example_Do_def
      example_Unmarshal_AccountStatus_def zero_AccountStatus_def Add_def Values_index_def
      String_Parse_def ToLower_def rooted_def removeEmptyPort_def)

theorem requests_built_witness:
  "environ example_state ''DEEPL_API_KEY'' = Some ''secret''
   \<and> Host (urls example_state (BaseURL (clients example_state 3))) = ''api.deepl.com''
   \<and> NewRequest_err example_lib ''POST''
        (example_URL\<lparr>Path := ''v2/translate'',
           RawQuery := [''auth_key'' \<mapsto> [''secret''], ''text'' \<mapsto> [''Hello''],
                        ''target_lang'' \<mapsto> [''DE''], ''source_lang'' \<mapsto> [''EN'']]\<rparr>) = None
   \<and> NewRequest_err example_lib ''POST''
        (example_URL\<lparr>Path := ''v2/usage'', RawQuery := [''auth_key'' \<mapsto> [''secret'']]\<rparr>) = None
   \<and> trace (snd (TranslateSentence example_lib 3 Background ''Hello'' ''EN'' ''DE'' example_state))
       = [Created ''POST''
           (example_URL\<lparr>Path := ''v2/translate'',
              RawQuery := [''auth_key'' \<mapsto> [''secret''], ''text'' \<mapsto> [''Hello''],
                           ''target_lang'' \<mapsto> [''DE''], ''source_lang'' \<mapsto> [''EN'']]\<rparr>),
          Sent DefaultClient
           \<lparr>Method = ''POST'',
            URL = \<lparr>Scheme = ''https'', Host = ''api.deepl.com'', Path = ''/v2/translate'',
                   RawQuery = [''auth_key'' \<mapsto> [''secret''], ''text'' \<mapsto> [''Hello''],
                               ''target_lang'' \<mapsto> [''DE''], ''source_lang'' \<mapsto> [''EN'']]\<rparr>,
            Header = [''User-Agent'' \<mapsto> [''Deepl-Go-Client'']], Ctx = Background\<rparr>]
   \<and> trace (snd (GetAccountStatus example_lib 3 Background example_state))
       = [Created ''POST'' (example_URL\<lparr>Path := ''v2/usage'', RawQuery := [''auth_key'' \<mapsto> [''secret'']]\<rparr>),
          Sent DefaultClient
           \<lparr>Method = ''POST'',
            URL = \<lparr>Scheme = ''https'', Host = ''api.deepl.com'', Path = ''/v2/usage'',
                   RawQuery = [''auth_key'' \<mapsto> [''secret'']]\<rparr>,
            Header = [''User-Agent'' \<mapsto> [''Deepl-Go-Client'']], Ctx = Background\<rparr>]
   \<and> dom [''auth_key'' \<mapsto> [''secret''], ''text'' \<mapsto> [''Hello''],
            ''target_lang'' \<mapsto> [''DE''], ''source_lang'' \<mapsto> [''EN'']]
       = {''auth_key'', ''text'', ''target_lang'', ''source_lang''}"
proof -
  let ?base = "urls example_state (BaseURL (clients example_state 3))"
  let ?t = "?base\<lparr>Path := path_Join example_lib [Path ?base, ''v2'', ''translate''],
            RawQuery := Add (Add (Add (Add (RawQuery ?base) ''auth_key'' ''secret'') ''text'' ''Hello'')
                               ''target_lang'' ''DE'') ''source_lang'' ''EN''\<rparr>"
  let ?g = "?base\<lparr>Path := path_Join example_lib [Path ?base, ''v2'', ''usage''],
            RawQuery := Add (RawQuery ?base) ''auth_key'' ''secret''\<rparr>"
  let ?qt = "[''auth_key'' \<mapsto> [''secret''], ''text'' \<mapsto> [''Hello''],
              ''target_lang'' \<mapsto> [''DE''], ''source_lang'' \<mapsto> [''EN'']]"
  have key: "environ example_state ''DEEPL_API_KEY'' = Some ''secret''"
    by (simp add: example_state_def)
  have ne: "''secret'' \<noteq> []" by simp
  have host: "Host ?base = ''api.deepl.com''"
    by (simp add: example_state_def example_URL_def)
  then have host': "Host ?base \<noteq> []"
    by simp
  have t: "?t = example_URL\<lparr>Path := ''v2/translate'', RawQuery := ?qt\<rparr>"
    by (simp add: example_state_def example_lib_def example_Join_def example_URL_def Add_def Values_index_def)
  have g: "?g = example_URL\<lparr>Path := ''v2/usage'', RawQuery := [''auth_key'' \<mapsto> [''secret'']]\<rparr>"
    by (simp add: example_state_def example_lib_def example_Join_def example_URL_def Add_def Values_index_def)
  have newt: "NewRequest_err example_lib ''POST'' ?t = None"
    by (simp add: example_lib_def)
  have newg: "NewRequest_err example_lib ''POST'' ?g = None"
    by (simp add: example_lib_def)
  have hc: "HTTPClient (clients example_state 3) = DefaultClient"
    and tr: "trace example_state = []"
    and q: "RawQuery ?base = Map.empty"
    and sch: "Scheme ?base = ''https''"
    by (simp_all add: example_state_def example_URL_def)
  have join: "path_Join example_lib [Path ?base, ''v2'', ''translate''] = ''v2/translate''"
    "path_Join example_lib [Path ?base, ''v2'', ''usage''] = ''v2/usage''"
    by (simp_all add: example_state_def example_lib_def example_Join_def example_URL_def)
  note built = requests_built [OF key ne refl refl refl newt newg, of Background "''auth_key''"]
  from built host' have fields:
    "Scheme (String_Parse example_lib ?t) = map ToLower (Scheme ?base)
     \<and> Host (String_Parse example_lib ?t) = removeEmptyPort (Host ?base)
     \<and> Path (String_Parse example_lib ?t) = rooted (path_Join example_lib [Path ?base, ''v2'', ''translate''])
     \<and> Scheme (String_Parse example_lib ?g) = map ToLower (Scheme ?base)
     \<and> Host (String_Parse example_lib ?g) = removeEmptyPort (Host ?base)
     \<and> Path (String_Parse example_lib ?g) = rooted (path_Join example_lib [Path ?base, ''v2'', ''usage''])"
    by blast
  have rt: "RawQuery (String_Parse example_lib ?t) = ?qt"
    by (simp add: RawQuery_String_Parse t)
  have rg: "RawQuery (String_Parse example_lib ?g) = [''auth_key'' \<mapsto> [''secret'']]"
    by (simp add: RawQuery_String_Parse g)
  have ut: "String_Parse example_lib ?t
      = \<lparr>Scheme = ''https'', Host = ''api.deepl.com'', Path = ''/v2/translate'', RawQuery = ?qt\<rparr>"
    using fields rt
    by (cases "String_Parse example_lib ?t")
       (simp add: host sch join rooted_def removeEmptyPort_def ToLower_def)
  have ug: "String_Parse example_lib ?g
      = \<lparr>Scheme = ''https'', Host = ''api.deepl.com'', Path = ''/v2/usage'',
          RawQuery = [''auth_key'' \<mapsto> [''secret'']]\<rparr>"
    using fields rg
    by (cases "String_Parse example_lib ?g")
       (simp add: host sch join rooted_def removeEmptyPort_def ToLower_def)
  from built have traces:
    "trace (snd (TranslateSentence example_lib 3 Background ''Hello'' ''EN'' ''DE'' example_state))
       = trace example_state @ [Created ''POST'' ?t,
           Sent (HTTPClient (clients example_state 3))
             \<lparr>Method = ''POST'', URL = String_Parse example_lib ?t,
              Header = [''User-Agent'' \<mapsto> [''Deepl-Go-Client'']], Ctx = Background\<rparr>]"
    "trace (snd (GetAccountStatus example_lib 3 Background example_state))
       = trace example_state @ [Created ''POST'' ?g,
           Sent (HTTPClient (clients example_state 3))
             \<lparr>Method = ''POST'', URL = String_Parse example_lib ?g,
              Header = [''User-Agent'' \<mapsto> [''Deepl-Go-Client'']], Ctx = Background\<rparr>]"
    by blast+
  from built have "dom (RawQuery (String_Parse example_lib ?t))
           = dom (RawQuery ?base) \<union> {''auth_key'', ''text'', ''target_lang'', ''source_lang''}"
    by blast
  from this [unfolded rt] q
  have doms: "dom ?qt = {''auth_key'', ''text'', ''target_lang'', ''source_lang''}"
    by simp
  from traces [unfolded hc tr t g] ut [unfolded t] ug [unfolded g]
    key host newt [unfolded t] newg [unfolded g] doms
  show ?thesis
    by simp
qed

text \<open>
  Claim C6 as stated fails for a client whose base URL has a query of its own:
  built by \<open>New\<close> from \<open>https://api.deepl.com?foo=bar\<close>, it sends \<open>foo=bar\<close>
  along with the parameters of the call, in both operations.
\<close>

theorem requests_keep_base_query:
  "(case New example_lib ''https://api.deepl.com?foo=bar'' None example_state of
      ((Some c, None), s) \<Rightarrow>
         map (\<lambda>req. RawQuery (URL req) ''foo'')
             (sent_requests (drop (length (trace s))
                (trace (snd (TranslateSentence example_lib c Background ''Hello'' ''EN'' ''DE'' s)))))
           = [Some [''bar'']]
         \<and> map (\<lambda>req. RawQuery (URL req) ''foo'')
             (sent_requests (drop (length (trace s))
                (trace (snd (GetAccountStatus example_lib c Background s)))))
           = [Some [''bar'']]
    | _ \<Rightarrow> False)"
  by (simp add: New_def TranslateSentence_def GetAccountStatus_def getAPIKey_def Getenv_def Let_def
      Query_def Encode_def NewRequest_def HTTPClient_Do_def Header_Set_def responseParse_def
      decodeBody_def example_state_def example_lib_def example_Join_def example_URL_def example_Do_def
      example_url_Parse_def Unmarshal_TranslateResponse_def json_parse_examples reuses_slice_def matches_def
      ToUpper_def saveError_def UnmarshalTypeError_def String_Parse_def ToLower_def rooted_def removeEmptyPort_def example_Unmarshal_AccountStatus_def
      zero_TranslateResponse_def zero_AccountStatus_def Add_def Values_index_def)

section \<open>Construction\<close>

text \<open>
  Claim C7.  \<open>New\<close> returns an error exactly when \<open>url.Parse\<close> rejects the
  string, and then it is "Failed to parse URL" with no client and the state
  untouched.  Otherwise it returns a client whose \<open>BaseURL\<close> points to the
  parsed URL, whose transport is the default HTTP client and whose logger is the
  supplied one, or the default logger (standard error, prefix \<open>[Log]\<close>, standard
  flags) when none is given; the history of requests is unchanged, so nothing
  goes over the network.
\<close>

theorem New_parses_or_fails:
  "(snd (fst (New l rawBaseURL logger s)) \<noteq> None) = (\<exists>err. url_Parse l rawBaseURL = Inl err)
   \<and> (case url_Parse l rawBaseURL of
         Inl err \<Rightarrow> New l rawBaseURL logger s = ((None, Some (Err ''Failed to parse URL'')), s)
       | Inr u \<Rightarrow>
           (\<exists>c s'. New l rawBaseURL logger s = ((Some c, None), s')
              \<and> urls s' (BaseURL (clients s' c)) = u
              \<and> HTTPClient (clients s' c) = DefaultClient
              \<and> Logger (clients s' c)
                   = (case logger of
                        None \<Rightarrow> Some \<lparr>Logger_out = Stderr, Logger_prefix = ''[Log]'', Logger_flag = LstdFlags\<rparr>
                      | Some lg \<Rightarrow> Some lg)
              \<and> trace s' = trace s \<and> environ s' = environ s))"
  by (cases "url_Parse l rawBaseURL") (simp_all add: New_def Let_def)

section \<open>What a call reads and what it changes\<close>

text \<open>
  The result of a call depends on the state only through the environment, the
  client and the URL object behind its \<open>BaseURL\<close>; the state after the call is
  the state before it with a longer history.
\<close>

lemma TranslateSentence_reads:
  assumes env: "environ s' = environ s" and cl: "clients s' c = clients s c"
    and url: "urls s' (BaseURL (clients s c)) = urls s (BaseURL (clients s c))"
  shows "fst (TranslateSentence l c ctx txt sourceLang targetLang s')
           = fst (TranslateSentence l c ctx txt sourceLang targetLang s)"
proof (cases "getAPIKey s")
  case (Pair k e)
  have "Getenv s' ''DEEPL_API_KEY'' = Getenv s ''DEEPL_API_KEY''"
    by (simp add: Getenv_def env)
  then have same: "getAPIKey s' = getAPIKey s"
    by (simp add: getAPIKey_def env split: option.splits)
  show ?thesis
  proof (cases e)
    case (Some err)
    with Pair same show ?thesis
      by (simp add: TranslateSentence_no_key [where k = k and err = err])
  next
    case None
    with Pair obtain apiKey where key: "environ s ''DEEPL_API_KEY'' = Some apiKey" and ne: "apiKey \<noteq> []"
      by (auto simp add: getAPIKey_def split: option.splits if_splits)
    from key env have key': "environ s' ''DEEPL_API_KEY'' = Some apiKey"
      by simp
    let ?base = "urls s (BaseURL (clients s c))"
    let ?u = "?base\<lparr>Path := path_Join l [Path ?base, ''v2'', ''translate''],
            RawQuery := Add (Add (Add (Add (RawQuery ?base) ''auth_key'' apiKey) ''text'' txt)
                               ''target_lang'' targetLang) ''source_lang'' sourceLang\<rparr>"
    have base': "?base = urls s' (BaseURL (clients s' c))"
      by (simp add: cl url)
    show ?thesis
    proof (cases "NewRequest_err l ''POST'' ?u")
      case None
      show ?thesis
        by (simp add: TranslateSentence_run [OF key ne refl refl None refl refl]
            TranslateSentence_run [OF key' ne base' refl None refl refl] cl
            split: sum.splits prod.splits option.splits)
    next
      case (Some err)
      show ?thesis
        by (simp add: TranslateSentence_rejected [OF key ne refl refl Some]
            TranslateSentence_rejected [OF key' ne base' refl Some])
    qed
  qed
qed

lemma GetAccountStatus_reads:
  assumes env: "environ s' = environ s" and cl: "clients s' c = clients s c"
    and url: "urls s' (BaseURL (clients s c)) = urls s (BaseURL (clients s c))"
  shows "fst (GetAccountStatus l c ctx s') = fst (GetAccountStatus l c ctx s)"
proof (cases "getAPIKey s")
  case (Pair k e)
  have "Getenv s' ''DEEPL_API_KEY'' = Getenv s ''DEEPL_API_KEY''"
    by (simp add: Getenv_def env)
  then have same: "getAPIKey s' = getAPIKey s"
    by (simp add: getAPIKey_def env split: option.splits)
  show ?thesis
  proof (cases e)
    case (Some err)
    with Pair same show ?thesis
      by (simp add: GetAccountStatus_no_key [where k = k and err = err])
  next
    case None
    with Pair obtain apiKey where key: "environ s ''DEEPL_API_KEY'' = Some apiKey" and ne: "apiKey \<noteq> []"
      by (auto simp add: getAPIKey_def split: option.splits if_splits)
    from key env have key': "environ s' ''DEEPL_API_KEY'' = Some apiKey"
      by simp
    let ?base = "urls s (BaseURL (clients s c))"
    let ?u = "?base\<lparr>Path := path_Join l [Path ?base, ''v2'', ''usage''],
            RawQuery := Add (RawQuery ?base) ''auth_key'' apiKey\<rparr>"
    have base': "?base = urls s' (BaseURL (clients s' c))"
      by (simp add: cl url)
    show ?thesis
    proof (cases "NewRequest_err l ''POST'' ?u")
      case None
      show ?thesis
        by (simp add: GetAccountStatus_run [OF key ne refl refl None refl refl]
            GetAccountStatus_run [OF key' ne base' refl None refl refl] cl
            split: sum.splits prod.splits option.splits)
    next
      case (Some err)
      show ?thesis
        by (simp add: GetAccountStatus_rejected [OF key ne refl refl Some]
            GetAccountStatus_rejected [OF key' ne base' refl Some])
    qed
  qed
qed

lemma TranslateSentence_frame:
  "snd (TranslateSentence l c ctx txt sourceLang targetLang s)
     = s\<lparr>trace := trace (snd (TranslateSentence l c ctx txt sourceLang targetLang s))\<rparr>"
  by (simp add: TranslateSentence_def Let_def NewRequest_def HTTPClient_Do_def
      split: sum.splits prod.splits option.splits)

lemma GetAccountStatus_frame:
  "snd (GetAccountStatus l c ctx s) = s\<lparr>trace := trace (snd (GetAccountStatus l c ctx s))\<rparr>"
  by (simp add: GetAccountStatus_def Let_def NewRequest_def HTTPClient_Do_def
      split: sum.splits prod.splits option.splits)

text \<open>
  Claim C9.  A call to \<open>TranslateSentence\<close> or \<open>GetAccountStatus\<close> leaves every
  \<open>Client\<close> object (its \<open>BaseURL\<close>, \<open>HTTPClient\<close> and \<open>Logger\<close> fields) and every
  \<open>url.URL\<close> object in the store as it was, the base URL of the receiver
  included: the path and the query are set on the copy \<open>reqURL\<close>.  The
  environment is not written either.
\<close>

theorem calls_leave_client_unchanged:
  "clients (snd (TranslateSentence l c ctx txt sourceLang targetLang s)) = clients s
   \<and> urls (snd (TranslateSentence l c ctx txt sourceLang targetLang s)) = urls s
   \<and> brk (snd (TranslateSentence l c ctx txt sourceLang targetLang s)) = brk s
   \<and> environ (snd (TranslateSentence l c ctx txt sourceLang targetLang s)) = environ s
   \<and> clients (snd (GetAccountStatus l c ctx s)) = clients s
   \<and> urls (snd (GetAccountStatus l c ctx s)) = urls s
   \<and> brk (snd (GetAccountStatus l c ctx s)) = brk s
   \<and> environ (snd (GetAccountStatus l c ctx s)) = environ s"
proof -
  let ?t = "snd (TranslateSentence l c ctx txt sourceLang targetLang s)"
  let ?g = "snd (GetAccountStatus l c ctx s)"
  have t: "?t = s\<lparr>trace := trace ?t\<rparr>"
    by (rule TranslateSentence_frame)
  have g: "?g = s\<lparr>trace := trace ?g\<rparr>"
    by (rule GetAccountStatus_frame)
  have "clients ?t = clients s \<and> urls ?t = urls s \<and> brk ?t = brk s \<and> environ ?t = environ s"
    by (subst t, simp)+
  moreover
  have "clients ?g = clients s \<and> urls ?g = urls s \<and> brk ?g = brk s \<and> environ ?g = environ s"
    by (subst g, simp)+
  ultimately show ?thesis by simp
qed

text \<open>
  Claim C8.  The result of a call is the same in any two states that agree on
  the environment, on the client and on the URL object behind its \<open>BaseURL\<close>,
  for the same arguments and the same provider (\<open>Do\<close>).  In particular a call
  repeated right after itself returns the same result: the first run leaves
  nothing behind that the second one reads.
\<close>

theorem calls_repeatable:
  "(environ s' = environ s \<and> clients s' c = clients s c
      \<and> urls s' (BaseURL (clients s c)) = urls s (BaseURL (clients s c))
    \<longrightarrow> fst (TranslateSentence l c ctx txt sourceLang targetLang s')
          = fst (TranslateSentence l c ctx txt sourceLang targetLang s)
        \<and> fst (GetAccountStatus l c ctx s') = fst (GetAccountStatus l c ctx s))
   \<and> fst (TranslateSentence l c ctx txt sourceLang targetLang
             (snd (TranslateSentence l c ctx txt sourceLang targetLang s)))
       = fst (TranslateSentence l c ctx txt sourceLang targetLang s)
   \<and> fst (GetAccountStatus l c ctx (snd (GetAccountStatus l c ctx s)))
       = fst (GetAccountStatus l c ctx s)"
proof -
  let ?t = "snd (TranslateSentence l c ctx txt sourceLang targetLang s)"
  let ?g = "snd (GetAccountStatus l c ctx s)"
  have t: "?t = s\<lparr>trace := trace ?t\<rparr>"
    by (rule TranslateSentence_frame)
  have g: "?g = s\<lparr>trace := trace ?g\<rparr>"
    by (rule GetAccountStatus_frame)
  have t': "environ ?t = environ s \<and> clients ?t c = clients s c
      \<and> urls ?t (BaseURL (clients s c)) = urls s (BaseURL (clients s c))"
    by (subst t, simp)+
  have g': "environ ?g = environ s \<and> clients ?g c = clients s c
      \<and> urls ?g (BaseURL (clients s c)) = urls s (BaseURL (clients s c))"
    by (subst g, simp)+
  have again_t: "fst (TranslateSentence l c ctx txt sourceLang targetLang ?t)
       = fst (TranslateSentence l c ctx txt sourceLang targetLang s)"
    using t' by (intro TranslateSentence_reads) simp_all
  have again_g: "fst (GetAccountStatus l c ctx ?g) = fst (GetAccountStatus l c ctx s)"
    using g' by (intro GetAccountStatus_reads) simp_all
  have any: "fst (TranslateSentence l c ctx txt sourceLang targetLang s')
          = fst (TranslateSentence l c ctx txt sourceLang targetLang s)
        \<and> fst (GetAccountStatus l c ctx s') = fst (GetAccountStatus l c ctx s)"
    if "environ s' = environ s \<and> clients s' c = clients s c
      \<and> urls s' (BaseURL (clients s c)) = urls s (BaseURL (clients s c))"
    using that TranslateSentence_reads [of s' s c l ctx "txt" sourceLang targetLang]
      GetAccountStatus_reads [of s' s c l ctx]
    by blast
  from again_t again_g any show ?thesis
    by blast
qed

theorem calls_repeatable_witness:
  "environ (example_state\<lparr>trace := [Created ''GET'' example_URL], brk := 7\<rparr>) = environ example_state
   \<and> fst (TranslateSentence example_lib 3 Background ''Hello'' ''EN'' ''DE''
            (example_state\<lparr>trace := [Created ''GET'' example_URL], brk := 7\<rparr>))
       = (Some \<lparr>Translations = [\<lparr>DetectedSourceLanguage = ''EN'', Text = ''Hallo''\<rparr>]\<rparr>, None)
   \<and> fst (GetAccountStatus example_lib 3 Background
            (example_state\<lparr>trace := [Created ''GET'' example_URL], brk := 7\<rparr>))
       = (Some \<lparr>CharacterCount = 30315, CharacterLimit = 1000000\<rparr>, None)"
  using calls_repeatable [of "example_state\<lparr>trace := [Created ''GET'' example_URL], brk := 7\<rparr>"
      example_state 3 example_lib Background "''Hello''" "''EN''" "''DE''"]
  by (simp add: example_TranslateSentence example_GetAccountStatus)

section \<open>Result or error\<close>

text \<open>
  In deepl.go a call returns either a decoded result with a nil error or a nil
  result with an error, never both and never neither.
\<close>

lemma TranslateSentence_result_xor_error:
  "(\<exists>transResp. fst (TranslateSentence l c ctx txt sourceLang targetLang s) = (Some transResp, None))
   \<noteq> (\<exists>err. fst (TranslateSentence l c ctx txt sourceLang targetLang s) = (None, Some err))"
  by (simp add: TranslateSentence_def Let_def NewRequest_def HTTPClient_Do_def
      split: sum.splits prod.splits option.splits)

lemma GetAccountStatus_result_xor_error:
  "(\<exists>accountStatusResp. fst (GetAccountStatus l c ctx s) = (Some accountStatusResp, None))
   \<noteq> (\<exists>err. fst (GetAccountStatus l c ctx s) = (None, Some err))"
  by (simp add: GetAccountStatus_def Let_def NewRequest_def HTTPClient_Do_def
      split: sum.splits prod.splits option.splits)

text \<open>The copy in part_002 returns a pointer to its response struct on every path.\<close>

lemma TranslateSentence_part_002_never_nil:
  "fst (fst (TranslateSentence_part_002 l c ctx txt sourceLang targetLang s)) \<noteq> None"
  by (simp add: TranslateSentence_part_002_def Let_def NewRequest_def HTTPClient_Do_def
      split: sum.splits prod.splits option.splits)

text \<open>
  Claim C5.  A call either succeeds with a decoded result and no error, or
  returns an error with a nil result, and never a partly filled result beside
  an error.  \<open>TranslateSentence\<close> of part_002 breaks this.  Without the credential
  it returns the error together with a pointer to the zero response; on a 200
  response whose \<open>text\<close> field is a number it returns the decode error together
  with the response as far as the decoder filled it, the detected language set
  and the text empty.
\<close>

theorem TranslateSentence_part_002_result_beside_error:
  "fst (TranslateSentence_part_002 example_lib 3 Background ''Hello'' ''EN'' ''DE''
          (example_state\<lparr>environ := Map.empty\<rparr>))
     = (Some \<lparr>Translations = []\<rparr>, Some (Err ''Not set API key environment''))
   \<and> fst (TranslateSentence_part_002
            (example_lib\<lparr>Do := \<lambda>hc req. Inr \<lparr>StatusCode = 200,
               Body = Inr ''{\"translations\":[{\"detected_source_language\":\"EN\",\"text\":5}]}''\<rparr>\<rparr>)
            3 Background ''Hello'' ''EN'' ''DE'' example_state)
     = (Some \<lparr>Translations = [\<lparr>DetectedSourceLanguage = ''EN'', Text = []\<rparr>]\<rparr>,
        Some (Wrap ''Failed to parse Json''
               (LibErr ''json: cannot unmarshal number into Go struct field translation.translations.text of type string'')))"
  by (simp add: TranslateSentence_part_002_def getAPIKey_def Getenv_def Let_def Query_def Encode_def
      NewRequest_def HTTPClient_Do_def Header_Set_def decodeBody_part_002_def
      example_state_def example_lib_def example_Join_def example_URL_def
      Unmarshal_TranslateResponse_def json_parse_examples reuses_slice_def matches_def
      ToUpper_def saveError_def UnmarshalTypeError_def String_Parse_def ToLower_def rooted_def removeEmptyPort_def zero_TranslateResponse_def zero_ErrorResponse_def
      Add_def Values_index_def)

text \<open>On the same two inputs \<open>TranslateSentence\<close> of deepl.go returns nil beside the error.\<close>

lemma TranslateSentence_nil_beside_error:
  "fst (TranslateSentence example_lib 3 Background ''Hello'' ''EN'' ''DE''
          (example_state\<lparr>environ := Map.empty\<rparr>))
     = (None, Some (Err ''Not set API key environment''))
   \<and> fst (TranslateSentence
            (example_lib\<lparr>Do := \<lambda>hc req. Inr \<lparr>StatusCode = 200,
               Body = Inr ''{\"translations\":[{\"detected_source_language\":\"EN\",\"text\":5}]}''\<rparr>\<rparr>)
            3 Background ''Hello'' ''EN'' ''DE'' example_state)
     = (None,
        Some (Wrap ''Failed to parse Json''
               (LibErr ''json: cannot unmarshal number into Go struct field translation.translations.text of type string'')))"
  by (simp add: TranslateSentence_def getAPIKey_def Getenv_def Let_def Query_def Encode_def
      NewRequest_def HTTPClient_Do_def Header_Set_def decodeBody_def responseParse_def
      example_state_def example_lib_def example_Join_def example_URL_def
      Unmarshal_TranslateResponse_def json_parse_examples reuses_slice_def matches_def
      ToUpper_def saveError_def UnmarshalTypeError_def String_Parse_def ToLower_def rooted_def removeEmptyPort_def zero_TranslateResponse_def zero_ErrorResponse_def
      Add_def Values_index_def)

end
